theory Spec2Isabelle
  imports Main "HOL-Library.Word" "HOL-Library.Multiset"
begin

unbundle bit_operations_syntax

section \<open>The lint visitor of the Panorama CSS language service\<close>

text \<open>
  This theory embeds \<^verbatim>\<open>src/services/lint.ts\<close> (class \<^verbatim>\<open>LintVisitor\<close> and its helper
  \<^verbatim>\<open>NodesByRootMap\<close>). The syntax tree, the settings, the CSS data manager and the
  helpers of \<^verbatim>\<open>lintUtil\<close>, \<^verbatim>\<open>utils/arrays\<close> and \<^verbatim>\<open>languageFacts\<close> are collaborators
  whose code is not part of the sources: the tree is input data (every accessor of a node
  is a field of the node), the other collaborators are the fields of an environment
  record.
\<close>

subsection \<open>JavaScript strings and arrays\<close>

text \<open>
  \<^verbatim>\<open>s.charAt(i)\<close> is the one-character string at index \<open>i\<close>, and the empty string when
  \<open>i\<close> is out of range.
\<close>

definition charAt :: "string \<Rightarrow> nat \<Rightarrow> string" where
  "charAt s i = (if i < length s then [s ! i] else [])"

text \<open>\<^verbatim>\<open>s.substr(1)\<close>.\<close>

definition substr1 :: "string \<Rightarrow> string" where
  "substr1 s = drop 1 s"

text \<open>
  \<^verbatim>\<open>s.toLowerCase()\<close> on the ASCII letters. The strings of this theory are byte strings;
  the letters outside ASCII, which JavaScript also maps, are left as they are.
\<close>

definition lowerChar :: "char \<Rightarrow> char" where
  "lowerChar c =
     (let k = of_char c :: nat in if 65 \<le> k \<and> k \<le> 90 then char_of (k + 32) else c)"

definition toLowerCase :: "string \<Rightarrow> string" where
  "toLowerCase s = map lowerChar s"

text \<open>
  \<^verbatim>\<open>s.trim()\<close> on the ASCII white space (tab, line feed, vertical tab, form feed,
  carriage return, space).
\<close>

definition isWhiteSpace :: "char \<Rightarrow> bool" where
  "isWhiteSpace c = (of_char c \<in> {9, 10, 11, 12, 13, 32 :: nat})"

definition trim :: "string \<Rightarrow> string" where
  "trim s = rev (dropWhile isWhiteSpace (rev (dropWhile isWhiteSpace s)))"

text \<open>
  \<^verbatim>\<open>xs.indexOf(x)\<close>: the first index holding \<open>x\<close>; \<open>None\<close> stands for \<open>-1\<close>.
\<close>

fun indexOf :: "'a list \<Rightarrow> 'a \<Rightarrow> nat option" where
  "indexOf [] x = None"
| "indexOf (y # ys) x = (if y = x then Some 0 else map_option Suc (indexOf ys x))"

text \<open>
  \<^verbatim>\<open>localize(key, template, args)\<close> of \<^verbatim>\<open>vscode-nls\<close> with no language bundle loaded
  fills the default (English) template; the two templates of the name list are the
  functions below.
\<close>

definition namelist_single :: "string \<Rightarrow> string" where
  "namelist_single nm = [CHR 0x27] @ nm @ [CHR 0x27]"

definition namelist_concatenated :: "string \<Rightarrow> string \<Rightarrow> string" where
  "namelist_concatenated result nm = result @ '', '' @ [CHR 0x27] @ nm @ [CHR 0x27]"

subsection \<open>Plain objects used as tables\<close>

text \<open>
  The visitor keeps two tables in plain objects (\<^verbatim>\<open>{}\<close>), \<^verbatim>\<open>validProperties\<close> and the
  \<^verbatim>\<open>data\<close> of a \<^verbatim>\<open>NodesByRootMap\<close>. A read \<^verbatim>\<open>table[key]\<close> of a key that the table does
  not own finds the member of \<^verbatim>\<open>Object.prototype\<close> of that name, when there is one:
  a function, or for \<^verbatim>\<open>__proto__\<close> the prototype itself, all of them truthy.
\<close>

definition ObjectPrototype_members :: "string list" where
  "ObjectPrototype_members =
     [''constructor'', ''hasOwnProperty'', ''isPrototypeOf'', ''propertyIsEnumerable'',
      ''toLocaleString'', ''toString'', ''valueOf'', ''__proto__'', ''__defineGetter__'',
      ''__defineSetter__'', ''__lookupGetter__'', ''__lookupSetter__'']"

text \<open>
  The exception of the visitor: \<^verbatim>\<open>entry.names.push(name)\<close> at an \<^verbatim>\<open>entry\<close> that is a
  member of \<^verbatim>\<open>Object.prototype\<close>, whose \<^verbatim>\<open>names\<close> is undefined.
\<close>

datatype error = TypeError

text \<open>
  \<^verbatim>\<open>for (const key in table)\<close> enumerates the keys that are array indices (\<^verbatim>\<open>0\<close>, or
  digits with no leading zero, below \<open>2\<^sup>3\<^sup>2 - 1\<close>) first, in ascending order, and then the
  other keys in the order of their creation. \<open>arrayIndex\<close> is the number of such a key.
\<close>

definition digitValue :: "char \<Rightarrow> nat" where
  "digitValue c = of_char c - 48"

definition isDigit :: "char \<Rightarrow> bool" where
  "isDigit c = (48 \<le> (of_char c :: nat) \<and> (of_char c :: nat) \<le> 57)"

definition arrayIndex :: "string \<Rightarrow> nat option" where
  "arrayIndex s =
     (let k = foldl (\<lambda>a c. 10 * a + digitValue c) 0 s
      in if s \<noteq> [] \<and> list_all isDigit s \<and> (s = ''0'' \<or> hd s \<noteq> CHR ''0'') \<and> k < 4294967295
         then Some k else None)"

definition indexKey :: "string \<times> 'a \<Rightarrow> nat" where
  "indexKey kv = (case arrayIndex (fst kv) of None \<Rightarrow> 0 | Some k \<Rightarrow> k)"

definition forIn :: "(string \<times> 'a) list \<Rightarrow> (string \<times> 'a) list" where
  "forIn table =
     sort_key indexKey (filter (\<lambda>kv. arrayIndex (fst kv) \<noteq> None) table) @
     filter (\<lambda>kv. arrayIndex (fst kv) = None) table"

subsection \<open>Syntax nodes\<close>

text \<open>
  The type tags of \<^verbatim>\<open>nodes.NodeType\<close> that the visitor names; \<open>OtherType\<close> stands for
  every other tag.
\<close>

datatype NodeType =
    UnknownAtRule | Keyframe | FontFace | Ruleset | SimpleSelector | Function
  | NumericValue | Import | HexColorValue | Prio | IdentifierSelector
  | Declaration | Property | Identifier | BinaryExpression | OtherType nat

text \<open>
  A node class with the results of the accessors the visitor calls on it. A tag
  determines its class, so the class carries the tag.
  \<^item> \<open>KeyframeC\<close>: \<^verbatim>\<open>getKeyword()\<close>, \<^verbatim>\<open>getName()\<close>;
  \<^item> \<open>FontFaceC\<close>: \<^verbatim>\<open>getDeclarations()\<close>;
  \<^item> \<open>RuleSetC\<close>: \<^verbatim>\<open>getSelectors()\<close>, \<^verbatim>\<open>getDeclarations()\<close>;
  \<^item> \<open>FunctionC\<close>: \<^verbatim>\<open>getName()\<close>, \<^verbatim>\<open>getArguments()\<close>;
  \<^item> \<open>NumericValueC\<close>: the \<^verbatim>\<open>value\<close> and \<^verbatim>\<open>unit\<close> of \<^verbatim>\<open>getValue()\<close>;
  \<^item> \<open>DeclarationC\<close>: \<^verbatim>\<open>getProperty()\<close>, \<^verbatim>\<open>getValue()\<close>, \<^verbatim>\<open>getFullPropertyName()\<close>,
    \<^verbatim>\<open>getNonPrefixedPropertyName()\<close>;
  \<^item> \<open>PropertyC\<close>: \<^verbatim>\<open>getIdentifier()\<close>, \<^verbatim>\<open>getName()\<close>;
  \<^item> \<open>IdentifierC\<close>: \<^verbatim>\<open>containsInterpolation()\<close>.
\<close>

datatype 'n nodeClass =
    UnknownAtRuleC
  | KeyframeC "'n option" string
  | FontFaceC "'n option"
  | RuleSetC 'n "'n option"
  | SimpleSelectorC
  | FunctionC string 'n
  | NumericValueC string "string option"
  | ImportC
  | HexColorValueC
  | PrioC
  | IdentifierSelectorC
  | DeclarationC "'n option" "'n option" string string
  | PropertyC "'n option" string
  | IdentifierC bool
  | BinaryExpressionC
  | OtherC nat

text \<open>
  A node: \<^verbatim>\<open>offset\<close>, \<^verbatim>\<open>length\<close>, \<^verbatim>\<open>getText()\<close>, the children and the class.
\<close>

datatype node =
  Node (offset: nat) (nlength: nat) (getText: string) (children: "node list")
    (nclass: "node nodeClass")

definition ntype :: "node \<Rightarrow> NodeType" where
  "ntype n =
     (case nclass n of
        UnknownAtRuleC \<Rightarrow> UnknownAtRule
      | KeyframeC k nm \<Rightarrow> Keyframe
      | FontFaceC d \<Rightarrow> FontFace
      | RuleSetC s d \<Rightarrow> Ruleset
      | SimpleSelectorC \<Rightarrow> SimpleSelector
      | FunctionC nm a \<Rightarrow> Function
      | NumericValueC v u \<Rightarrow> NumericValue
      | ImportC \<Rightarrow> Import
      | HexColorValueC \<Rightarrow> HexColorValue
      | PrioC \<Rightarrow> Prio
      | IdentifierSelectorC \<Rightarrow> IdentifierSelector
      | DeclarationC p v f np \<Rightarrow> Declaration
      | PropertyC i nm \<Rightarrow> Property
      | IdentifierC b \<Rightarrow> Identifier
      | BinaryExpressionC \<Rightarrow> BinaryExpression
      | OtherC k \<Rightarrow> OtherType k)"

text \<open>
  Modelled from the spec: the child navigation of the node classes, which are not part
  of the sources. \<^verbatim>\<open>node.getChild(0)\<close> is the first child, or null;
  \<^verbatim>\<open>node.hasChildren()\<close> tells whether there is a child.
\<close>

definition getChild0 :: "node \<Rightarrow> node option" where
  "getChild0 n = (case children n of [] \<Rightarrow> None | c # cs \<Rightarrow> Some c)"

definition hasChildren :: "node \<Rightarrow> bool" where
  "hasChildren n = (children n \<noteq> [])"

text \<open>
  Modelled from the spec: \<^verbatim>\<open>node.matches(str)\<close> of the node classes, which are not
  part of the sources; the spec reads \<^verbatim>\<open>getSelectors().matches(":export")\<close> as
  ``selector literally \<^verbatim>\<open>:export\<close>'', a comparison of the node's text.
\<close>

definition matches :: "node \<Rightarrow> string \<Rightarrow> bool" where
  "matches n str = (getText n = str)"

text \<open>
  Modelled from the spec: \<^verbatim>\<open>node.findParent(type)\<close> of the node classes follows the
  parent pointers. The tree of this theory has no parent pointers, so the traversal hands
  every visit the list of the node's ancestors, nearest first; the result is the nearest
  node with the tag among the node and its ancestors, or null.
\<close>

definition findParent :: "node list \<Rightarrow> node \<Rightarrow> NodeType \<Rightarrow> node option" where
  "findParent ancestors n t = find (\<lambda>m. ntype m = t) (n # ancestors)"

definition isDeclarationInstance :: "node \<Rightarrow> bool" where
  "isDeclarationInstance n = (case nclass n of DeclarationC p v f np \<Rightarrow> True | _ \<Rightarrow> False)"

definition isBinaryExpressionInstance :: "node \<Rightarrow> bool" where
  "isBinaryExpressionInstance n = (case nclass n of BinaryExpressionC \<Rightarrow> True | _ \<Rightarrow> False)"

definition getProperty :: "node \<Rightarrow> node option" where
  "getProperty n = (case nclass n of DeclarationC p v f np \<Rightarrow> p | _ \<Rightarrow> None)"

definition getValue :: "node \<Rightarrow> node option" where
  "getValue n = (case nclass n of DeclarationC p v f np \<Rightarrow> v | _ \<Rightarrow> None)"

definition getFullPropertyName :: "node \<Rightarrow> string" where
  "getFullPropertyName n = (case nclass n of DeclarationC p v f np \<Rightarrow> f | _ \<Rightarrow> [])"

definition getNonPrefixedPropertyName :: "node \<Rightarrow> string" where
  "getNonPrefixedPropertyName n = (case nclass n of DeclarationC p v f np \<Rightarrow> np | _ \<Rightarrow> [])"

definition getIdentifier :: "node \<Rightarrow> node option" where
  "getIdentifier n = (case nclass n of PropertyC i nm \<Rightarrow> i | _ \<Rightarrow> None)"

definition getName :: "node \<Rightarrow> string" where
  "getName n =
     (case nclass n of
        PropertyC i nm \<Rightarrow> nm
      | FunctionC nm a \<Rightarrow> nm
      | KeyframeC k nm \<Rightarrow> nm
      | _ \<Rightarrow> [])"

definition containsInterpolation :: "node \<Rightarrow> bool" where
  "containsInterpolation n = (case nclass n of IdentifierC b \<Rightarrow> b | _ \<Rightarrow> False)"

definition getDeclarations :: "node \<Rightarrow> node option" where
  "getDeclarations n =
     (case nclass n of RuleSetC s d \<Rightarrow> d | FontFaceC d \<Rightarrow> d | _ \<Rightarrow> None)"

definition getKeyword :: "node \<Rightarrow> node option" where
  "getKeyword n = (case nclass n of KeyframeC k nm \<Rightarrow> k | _ \<Rightarrow> None)"

text \<open>
  The \<^verbatim>\<open>value\<close> and \<^verbatim>\<open>unit\<close> of a numeric value's \<^verbatim>\<open>getValue()\<close>; \<open>None\<close> is an
  undefined unit.
\<close>

definition getNumericValue :: "node \<Rightarrow> string \<times> string option" where
  "getNumericValue n = (case nclass n of NumericValueC v u \<Rightarrow> (v, u) | _ \<Rightarrow> ([], None))"

text \<open>
  An accessor asked of a node of another class answers null (or the empty string); the
  visitor asks it only after the tag or an \<^verbatim>\<open>instanceof\<close> test has settled the class.
\<close>

subsection \<open>Rules, markers, property elements\<close>

text \<open>The rules of \<^verbatim>\<open>lintRules\<close> that the visitor reports.\<close>

datatype Rule =
    UnknownAtRules | UniversalSelector | AvoidIdSelector | ImportStatemement
  | EmptyRuleSet | BewareOfBoxModelSize | PropertyIgnoredDueToDisplay | AvoidFloat
  | DuplicateDeclarations | UnknownVendorSpecificProperty | IEStarHack | UnknownProperty
  | IncludeStandardPropertyWhenUsingVendorPrefix | AllVendorPrefixes | AvoidImportant
  | ZeroWithUnit | RequiredPropertiesForFontFace | HexColorLength | ArgsInColorFunction

text \<open>
  \<^verbatim>\<open>new nodes.Marker(node, rule, level, details)\<close>. The level is the number that
  \<^verbatim>\<open>getLevel()\<close> returns, as the 32-bit integer the operator \<^verbatim>\<open>&\<close> reads.
\<close>

record Marker =
  mnode :: node
  mrule :: Rule
  mlevel :: "32 word"
  mdetails :: "string option"

text \<open>
  Modelled from the spec: \<^verbatim>\<open>Element\<close> of \<^verbatim>\<open>lintUtil\<close>, ``a declaration node paired
  with its normalized full property name''. The normalization is the environment's
  \<open>elementName\<close>. \<open>eid\<close> is the identity of the object: the visitor builds one element per
  slot of the property table and compares elements by reference.
\<close>

record Element =
  eid :: nat
  fullPropertyName :: string
  node :: node

text \<open>The result of \<^verbatim>\<open>calculateBoxModel\<close>, as the visitor reads it.\<close>

record SideState =
  side_value :: bool
  side_properties :: "Element list"

record BoxModel =
  bm_width :: "Element option"
  bm_height :: "Element option"
  bm_top :: SideState
  bm_right :: SideState
  bm_bottom :: SideState
  bm_left :: SideState

text \<open>
  The collaborators of a visitor, none of them under the sources:
  \<^item> \<open>getRule\<close>: \<^verbatim>\<open>settings.getRule(rule)\<close>, the level configured for a rule;
  \<^item> \<open>isKnownProperty\<close>, \<open>isStandardProperty\<close>, \<open>getAtDirective\<close>: the CSS data manager
    (\<open>getAtDirective\<close> as the truth value of its result);
  \<^item> \<open>units_length\<close>: the table \<^verbatim>\<open>languageFacts.units.length\<close>;
  \<^item> \<open>parseFloatIsZero\<close>: the outcome of the floating-point test
    \<^verbatim>\<open>parseFloat(s) === 0.0\<close>, left to the JavaScript runtime;
  \<^item> \<open>calculateBoxModel\<close> of \<^verbatim>\<open>lintUtil\<close> and \<open>arrays_union\<close>, \<^verbatim>\<open>union\<close> of
    \<^verbatim>\<open>utils/arrays\<close>;
  \<^item> \<open>elementName\<close>: the normalized full property name of a declaration;
  \<^item> \<open>Level_Warning\<close>, \<open>Level_Error\<close>: the numbers of \<^verbatim>\<open>nodes.Level\<close>;
  \<^item> \<open>setting_ValidProperties\<close>: \<^verbatim>\<open>settings.getSetting(Settings.ValidProperties)\<close>;
    \<open>None\<close> is a value that is not an array, and an element of the array is \<open>Some\<close> of
    a string, or \<open>None\<close> when it is not a string.
\<close>

record env =
  getRule :: "Rule \<Rightarrow> 32 word"
  isKnownProperty :: "string \<Rightarrow> bool"
  isStandardProperty :: "string \<Rightarrow> bool"
  getAtDirective :: "string \<Rightarrow> bool"
  units_length :: "string list"
  parseFloatIsZero :: "string \<Rightarrow> bool"
  calculateBoxModel :: "Element list \<Rightarrow> BoxModel"
  arrays_union :: "Element list \<Rightarrow> Element list \<Rightarrow> Element list"
  elementName :: "node \<Rightarrow> string"
  Level_Warning :: "32 word"
  Level_Error :: "32 word"
  setting_ValidProperties :: "string option list option"

definition new_Element :: "env \<Rightarrow> nat \<Rightarrow> node \<Rightarrow> Element" where
  "new_Element e i decl = \<lparr>eid = i, fullPropertyName = elementName e decl, node = decl\<rparr>"

subsection \<open>The grouping index\<close>

text \<open>
  \<^verbatim>\<open>NodesByRootMap\<close> (lines 19--33): \<^verbatim>\<open>data\<close> is a plain object keyed by root, here
  the list of the keys it owns, with their entries, in the order of their creation.
  \<^verbatim>\<open>add\<close> reads \<^verbatim>\<open>this.data[root]\<close>: an entry of its own is extended; when there is none
  and the root is no member of \<^verbatim>\<open>Object.prototype\<close>, an entry is created; when the
  root is such a member, the read finds the member, no entry is created, and
  \<^verbatim>\<open>entry.names.push(name)\<close> raises a \<^verbatim>\<open>TypeError\<close>.
\<close>

record Entry =
  nodes :: "node list"
  names :: "string list"

type_synonym NodesByRootMap = "(string \<times> Entry) list"

definition push_entry :: "Entry \<Rightarrow> string \<Rightarrow> node option \<Rightarrow> Entry" where
  "push_entry entry name nd =
     (let entry1 = entry\<lparr>names := names entry @ [name]\<rparr>
      in case nd of None \<Rightarrow> entry1 | Some n \<Rightarrow> entry1\<lparr>nodes := nodes entry1 @ [n]\<rparr>)"

fun add ::
  "NodesByRootMap \<Rightarrow> string \<Rightarrow> string \<Rightarrow> node option \<Rightarrow> error + NodesByRootMap" where
  "add [] root name nd =
     (if root \<in> set ObjectPrototype_members then Inl TypeError
      else Inr [(root, push_entry \<lparr>nodes = [], names = []\<rparr> name nd)])"
| "add ((k, entry) # rest) root name nd =
     (if k = root then Inr ((k, push_entry entry name nd) # rest)
      else (case add rest root name nd of
              Inl err \<Rightarrow> Inl err
            | Inr rest' \<Rightarrow> Inr ((k, entry) # rest')))"

subsection \<open>The visitor\<close>

text \<open>
  The fields of a \<^verbatim>\<open>LintVisitor\<close> (lines 49--54) that change or differ between
  visitors. \<open>validProperties\<close> holds the keys that the table owns, each with the value
  \<^verbatim>\<open>true\<close>.
\<close>

record visitor =
  warnings :: "Marker list"
  keyframes :: NodesByRootMap
  documentText :: string
  validProperties :: "string list"

text \<open>
  The constructor (lines 56--73), with the text of the document: every string of the
  setting is trimmed and put in lower case, and is made a key when it is not empty.
\<close>

definition new_LintVisitor :: "env \<Rightarrow> string \<Rightarrow> visitor" where
  "new_LintVisitor e text =
     \<lparr>warnings = [], keyframes = [], documentText = text,
      validProperties =
        (case setting_ValidProperties e of
           None \<Rightarrow> []
         | Some properties \<Rightarrow>
             fold
               (\<lambda>p table.
                  case p of
                    None \<Rightarrow> table
                  | Some s \<Rightarrow>
                      (let name = toLowerCase (trim s)
                       in if length name \<noteq> 0 then table @ [name] else table))
               properties [])\<rparr>"

text \<open>
  The truth value of \<^verbatim>\<open>this.validProperties[name]\<close>: the table owns the key, or the
  name is a member of \<^verbatim>\<open>Object.prototype\<close>.
\<close>

definition validProperty :: "visitor \<Rightarrow> string \<Rightarrow> bool" where
  "validProperty v name =
     (name \<in> set (validProperties v) \<or> name \<in> set ObjectPrototype_members)"

definition prefixes :: "string list" where
  "prefixes = [''-s2-'']"

definition isValidPropertyDeclaration :: "visitor \<Rightarrow> Element \<Rightarrow> bool" where
  "isValidPropertyDeclaration v element = validProperty v (fullPropertyName element)"

definition fetch :: "Element list \<Rightarrow> string \<Rightarrow> Element list" where
  "fetch input s =
     fold (\<lambda>curr elements. if fullPropertyName curr = s then elements @ [curr] else elements)
       input []"

text \<open>
  Modelled from the spec: \<^verbatim>\<open>node.accept(visitor)\<close> of the node classes, the depth-first
  traversal in document order in which a visit ``returns a boolean controlling whether
  the traversal should descend into that node's children''. The visit receives the
  ancestors of the node and the state that the source keeps in mutable variables.
\<close>

fun accept :: "(node list \<Rightarrow> node \<Rightarrow> 's \<Rightarrow> bool \<times> 's) \<Rightarrow> node list \<Rightarrow> node \<Rightarrow> 's \<Rightarrow> 's"
  and acceptAll :: "(node list \<Rightarrow> node \<Rightarrow> 's \<Rightarrow> bool \<times> 's) \<Rightarrow> node list \<Rightarrow> node list \<Rightarrow> 's \<Rightarrow> 's"
where
  "accept visit ancestors (Node off l t cs c) s =
     (case visit ancestors (Node off l t cs c) s of
        (descend, s') \<Rightarrow>
          if descend then acceptAll visit (Node off l t cs c # ancestors) cs s' else s')"
| "acceptAll visit ancestors [] s = s"
| "acceptAll visit ancestors (child # rest) s =
     acceptAll visit ancestors rest (accept visit ancestors child s)"

definition findValueInExpression :: "node \<Rightarrow> string \<Rightarrow> bool" where
  "findValueInExpression expression v =
     accept
       (\<lambda>ancestors n found.
          let found' = (if ntype n = Identifier \<and> matches n v then True else found)
          in (\<not> found', found'))
       [] expression False"

definition fetchWithValue :: "Element list \<Rightarrow> string \<Rightarrow> string \<Rightarrow> Element list" where
  "fetchWithValue input s v =
     fold
       (\<lambda>inputElement elements.
          if fullPropertyName inputElement = s then
            (case getValue (node inputElement) of
               None \<Rightarrow> elements
             | Some expression \<Rightarrow>
                 if findValueInExpression expression v then elements @ [inputElement]
                 else elements)
          else elements)
       input []"

text \<open>\<^verbatim>\<open>Array.prototype.filter\<close>: the kept elements are pushed in order.\<close>

fun js_filter :: "('a \<Rightarrow> bool) \<Rightarrow> 'a list \<Rightarrow> 'a list \<Rightarrow> 'a list" where
  "js_filter p [] kept = kept"
| "js_filter p (x # xs) kept = js_filter p xs (if p x then kept @ [x] else kept)"

text \<open>
  \<^verbatim>\<open>getEntries(filter)\<close>; \<open>None\<close> is the omitted argument, whose default is
  \<^verbatim>\<open>Level.Warning | Level.Error\<close>. The operands of \<^verbatim>\<open>&\<close> are 32-bit integers.
\<close>

definition getEntries :: "env \<Rightarrow> visitor \<Rightarrow> 32 word option \<Rightarrow> Marker list" where
  "getEntries e v filter_arg =
     (let mask = (case filter_arg of None \<Rightarrow> Level_Warning e OR Level_Error e | Some m \<Rightarrow> m)
      in js_filter (\<lambda>entry. (mlevel entry AND mask) \<noteq> 0) (warnings v) [])"

definition addEntry :: "env \<Rightarrow> node \<Rightarrow> Rule \<Rightarrow> string option \<Rightarrow> visitor \<Rightarrow> visitor" where
  "addEntry e n rule details v =
     v\<lparr>warnings := warnings v @
         [\<lparr>mnode = n, mrule = rule, mlevel = getRule e rule, mdetails = details\<rparr>]\<rparr>"

text \<open>
  \<^verbatim>\<open>getMissingNames\<close> (lines 128--149): the first loop clears, for each actual name, the first slot of the
  clone that holds it; the second loop joins the slots that are left. A slot is skipped
  when it is falsy: cleared (null), or the empty string.
\<close>

definition clearSlot :: "string option list \<Rightarrow> string \<Rightarrow> string option list" where
  "clearSlot expectedClone a =
     (case indexOf expectedClone (Some a) of
        None \<Rightarrow> expectedClone
      | Some k \<Rightarrow> expectedClone[k := None])"

fun joinSlots :: "string option list \<Rightarrow> string option \<Rightarrow> string option" where
  "joinSlots [] result = result"
| "joinSlots (slot # rest) result =
     joinSlots rest
       (case slot of
          None \<Rightarrow> result
        | Some nm \<Rightarrow>
            if nm = [] then result
            else (case result of
                    None \<Rightarrow> Some (namelist_single nm)
                  | Some r \<Rightarrow> Some (namelist_concatenated r nm)))"

definition getMissingNames :: "string list \<Rightarrow> string list \<Rightarrow> string option" where
  "getMissingNames expected actual =
     (let expectedClone = fold (\<lambda>a clone. clearSlot clone a) actual (map Some expected)
      in joinSlots expectedClone None)"

subsection \<open>Visits of single nodes\<close>

text \<open>
  A visit takes the visitor and returns the boolean of the source with the visitor it
  leaves behind; a visit that can raise returns the exception (\<open>Inl\<close>) or that pair
  (\<open>Inr\<close>). \<^verbatim>\<open>visitUnknownAtRule\<close> is lines 183--196, \<^verbatim>\<open>visitKeyframe\<close> lines
  198--207.
\<close>

definition visitUnknownAtRule :: "env \<Rightarrow> node \<Rightarrow> visitor \<Rightarrow> bool \<times> visitor" where
  "visitUnknownAtRule e n v =
     (case getChild0 n of
        None \<Rightarrow> (False, v)
      | Some atRuleName \<Rightarrow>
          if getAtDirective e (getText atRuleName) then (False, v)
          else (True,
                addEntry e atRuleName UnknownAtRules
                  (Some (''Unknown at rule '' @ getText atRuleName)) v))"

definition visitKeyframe :: "node \<Rightarrow> visitor \<Rightarrow> error + bool \<times> visitor" where
  "visitKeyframe n v =
     (case getKeyword n of
        None \<Rightarrow> Inr (False, v)
      | Some keyword \<Rightarrow>
          (let text = getText keyword
           in case add (keyframes v) (getName n) text
                     (if text \<noteq> ''@keyframes'' then Some keyword else None) of
                Inl err \<Rightarrow> Inl err
              | Inr data \<Rightarrow> Inr (True, v\<lparr>keyframes := data\<rparr>)))"

text \<open>
  \<^verbatim>\<open>validateKeyframes\<close> (lines 209--220): the loop over the keys of the keyframes index computes
  \<^verbatim>\<open>needsStandard\<close> and continues; its body ends there.
\<close>

fun validateKeyframesLoop :: "NodesByRootMap \<Rightarrow> visitor \<Rightarrow> visitor" where
  "validateKeyframesLoop [] v = v"
| "validateKeyframesLoop ((name, entry) # rest) v =
     (let actual = names entry;
          needsStandard = (indexOf actual ''@keyframes'' = None)
      in if \<not> needsStandard \<and> length actual = 1 then validateKeyframesLoop rest v
         else validateKeyframesLoop rest v)"

definition validateKeyframes :: "visitor \<Rightarrow> bool \<times> visitor" where
  "validateKeyframes v = (True, validateKeyframesLoop (forIn (keyframes v)) v)"

definition completeValidations :: "visitor \<Rightarrow> visitor" where
  "completeValidations v = snd (validateKeyframes v)"

definition visitSimpleSelector :: "env \<Rightarrow> node \<Rightarrow> visitor \<Rightarrow> bool \<times> visitor" where
  "visitSimpleSelector e n v =
     (let firstChar = charAt (documentText v) (offset n)
      in (True,
          if nlength n = 1 \<and> firstChar = ''*'' then addEntry e n UniversalSelector None v
          else v))"

definition visitIdentifierSelector :: "env \<Rightarrow> node \<Rightarrow> visitor \<Rightarrow> bool \<times> visitor" where
  "visitIdentifierSelector e n v = (True, addEntry e n AvoidIdSelector None v)"

definition visitImport :: "env \<Rightarrow> node \<Rightarrow> visitor \<Rightarrow> bool \<times> visitor" where
  "visitImport e n v = (True, addEntry e n ImportStatemement None v)"

definition visitPrio :: "env \<Rightarrow> node \<Rightarrow> visitor \<Rightarrow> bool \<times> visitor" where
  "visitPrio e n v = (True, addEntry e n AvoidImportant None v)"

definition isCSSDeclaration :: "node \<Rightarrow> bool" where
  "isCSSDeclaration n =
     (if isDeclarationInstance n then
        (if getValue n = None then False
         else (case getProperty n of
                 None \<Rightarrow> False
               | Some property \<Rightarrow>
                   (case getIdentifier property of
                      None \<Rightarrow> False
                    | Some identifier \<Rightarrow> \<not> containsInterpolation identifier)))
      else False)"

text \<open>
  \<^verbatim>\<open>visitNumericValue\<close> (lines 463--486). A unit is falsy when it is undefined or
  empty.
\<close>

definition visitNumericValue :: "env \<Rightarrow> node list \<Rightarrow> node \<Rightarrow> visitor \<Rightarrow> bool \<times> visitor" where
  "visitNumericValue e ancestors n v =
     (let funcDecl = findParent ancestors n Function
      in if (case funcDecl of None \<Rightarrow> False | Some f \<Rightarrow> getName f = ''calc'') then (True, v)
         else
           (case findParent ancestors n Declaration of
              None \<Rightarrow> (True, v)
            | Some decl \<Rightarrow>
                (case getValue decl of
                   None \<Rightarrow> (True, v)
                 | Some declValue \<Rightarrow>
                     (case getNumericValue n of
                        (val, unit) \<Rightarrow>
                          (case unit of
                             None \<Rightarrow> (True, v)
                           | Some u \<Rightarrow>
                               if u = [] \<or> indexOf (units_length e) (toLowerCase u) = None
                               then (True, v)
                               else if parseFloatIsZero e val \<and> u \<noteq> [] \<and>
                                       \<not> validProperty v (getFullPropertyName decl)
                               then (True, addEntry e n ZeroWithUnit None v)
                               else (True, v))))))"

text \<open>
  \<^verbatim>\<open>visitFontFace\<close>: the loop keeps \<^verbatim>\<open>definesSrc\<close>, \<^verbatim>\<open>definesFontFamily\<close> and
  \<^verbatim>\<open>containsUnknowns\<close>.
\<close>

definition fontFaceStep :: "node \<Rightarrow> bool \<times> bool \<times> bool \<Rightarrow> bool \<times> bool \<times> bool" where
  "fontFaceStep n st =
     (case st of
        (definesSrc, definesFontFamily, containsUnknowns) \<Rightarrow>
          if isCSSDeclaration n then
            (let name = toLowerCase (getName (the (getProperty n)))
             in (if name = ''src'' then True else definesSrc,
                 if name = ''font-family'' then True else definesFontFamily,
                 containsUnknowns))
          else (definesSrc, definesFontFamily, True))"

definition visitFontFace :: "env \<Rightarrow> node \<Rightarrow> visitor \<Rightarrow> bool \<times> visitor" where
  "visitFontFace e n v =
     (case getDeclarations n of
        None \<Rightarrow> (False, v)
      | Some declarations \<Rightarrow>
          (case fold fontFaceStep (children declarations) (False, False, False) of
             (definesSrc, definesFontFamily, containsUnknowns) \<Rightarrow>
               (True,
                if \<not> containsUnknowns \<and> (\<not> definesSrc \<or> \<not> definesFontFamily)
                then addEntry e n RequiredPropertiesForFontFace None v
                else v)))"

text \<open>\<^verbatim>\<open>visitHexColorValue\<close> (lines 532--539).\<close>

definition visitHexColorValue :: "env \<Rightarrow> node \<Rightarrow> visitor \<Rightarrow> bool \<times> visitor" where
  "visitHexColorValue e n v =
     (let length = nlength n
      in (False,
          if length \<noteq> 9 \<and> length \<noteq> 7 \<and> length \<noteq> 5 \<and> length \<noteq> 4
          then addEntry e n HexColorLength None v
          else v))"

text \<open>
  \<^verbatim>\<open>visitFunction\<close> (lines 541--573); the cast \<^verbatim>\<open><nodes.Function>node\<close> is the case on the class, and
  \<^verbatim>\<open>visitNode\<close> hands over nodes of this class only.
\<close>

definition countArgument :: "node list \<Rightarrow> node \<Rightarrow> int \<Rightarrow> bool \<times> int" where
  "countArgument ancestors n actualAttrCount =
     (if isBinaryExpressionInstance n then (False, actualAttrCount + 1)
      else (True, actualAttrCount))"

definition visitFunction :: "env \<Rightarrow> node \<Rightarrow> visitor \<Rightarrow> bool \<times> visitor" where
  "visitFunction e n v =
     (case nclass n of
        FunctionC name arguments \<Rightarrow>
          (let fnName = toLowerCase name;
               expectedAttrCount =
                 (if fnName = ''rgb('' \<or> fnName = ''hsl('' then 3
                  else if fnName = ''rgba('' \<or> fnName = ''hsla('' then 4
                  else - 1 :: int)
           in if expectedAttrCount \<noteq> - 1 then
                (let actualAttrCount = accept countArgument [] arguments 0
                 in (True,
                     if actualAttrCount \<noteq> expectedAttrCount
                     then addEntry e n ArgsInColorFunction None v
                     else v))
              else (True, v))
      | _ \<Rightarrow> (True, v))"

subsection \<open>The rule set visit\<close>

text \<open>
  \<^verbatim>\<open>visitRuleSet\<close> (lines 251--453) is given part by part, in the order of the source:
  the property table (lines 266--271), the box model (280--310), the properties ignored
  due to \<^verbatim>\<open>display\<close> (317--336), \<^verbatim>\<open>float\<close> (342--348), the duplicate declarations
  (353--369), the unknown and vendor-specific properties (375--449). Every part takes
  the visitor and returns it with the markers it has pushed; the last part can raise.

  The property table: one fresh element per child of the declarations node that is a
  \<^verbatim>\<open>Declaration\<close>; the identity of an element is its slot.
\<close>

fun propertyTableFrom :: "env \<Rightarrow> node list \<Rightarrow> Element list \<Rightarrow> Element list" where
  "propertyTableFrom e [] propertyTable = propertyTable"
| "propertyTableFrom e (element # rest) propertyTable =
     propertyTableFrom e rest
       (if isDeclarationInstance element
        then propertyTable @ [new_Element e (length propertyTable) element]
        else propertyTable)"

text \<open>
  Box model: \<^verbatim>\<open>width\<close> against the right and left sides, \<^verbatim>\<open>height\<close> against the top
  and bottom sides.
\<close>

definition boxModelCheck ::
  "env \<Rightarrow> Element option \<Rightarrow> SideState \<Rightarrow> SideState \<Rightarrow> visitor \<Rightarrow> visitor" where
  "boxModelCheck e dimension side1 side2 v =
     (case dimension of
        None \<Rightarrow> v
      | Some d \<Rightarrow>
          (let properties0 = [];
               properties1 =
                 (if side_value side1 then arrays_union e properties0 (side_properties side1)
                  else properties0);
               properties2 =
                 (if side_value side2 then arrays_union e properties1 (side_properties side2)
                  else properties1)
           in if length properties2 \<noteq> 0 then
                addEntry e (node d) BewareOfBoxModelSize None
                  (fold (\<lambda>item. addEntry e (node item) BewareOfBoxModelSize None) properties2 v)
              else v))"

definition message_inlineBlock :: string where
  "message_inlineBlock =
     ''inline-block is ignored due to the float. If 'float' has a value other than 'none', the box is floated and 'display' is treated as 'block'' @ [CHR 0x27]"

definition message_displayBlock :: string where
  "message_displayBlock =
     ''Property is ignored due to the display. With 'display: block', vertical-align should not be used.''"

definition displayChecks :: "env \<Rightarrow> Element list \<Rightarrow> visitor \<Rightarrow> visitor" where
  "displayChecks e propertyTable v =
     (let displayElems1 = fetchWithValue propertyTable ''display'' ''inline-block'';
          v1 =
            (if length displayElems1 > 0 then
               fold
                 (\<lambda>elem w.
                    case getValue (node elem) of
                      None \<Rightarrow> w
                    | Some val \<Rightarrow>
                        if \<not> matches val ''none''
                        then addEntry e (node elem) PropertyIgnoredDueToDisplay
                               (Some message_inlineBlock) w
                        else w)
                 (fetch propertyTable ''float'') v
             else v);
          displayElems2 = fetchWithValue propertyTable ''display'' ''block''
      in if length displayElems2 > 0 then
           fold
             (\<lambda>elem. addEntry e (node elem) PropertyIgnoredDueToDisplay
                        (Some message_displayBlock))
             (fetch propertyTable ''vertical-align'') v1
         else v1)"

definition floatChecks :: "env \<Rightarrow> Element list \<Rightarrow> visitor \<Rightarrow> visitor" where
  "floatChecks e propertyTable v =
     fold
       (\<lambda>element w.
          if \<not> isValidPropertyDeclaration w element
          then addEntry e (node element) AvoidFloat None w
          else w)
       (fetch propertyTable ''float'') v"

text \<open>
  Duplicate declarations: the loop over \<open>k\<close> (lines 360--365), the body of the loop
  over \<open>i\<close> (lines 354--368), and that loop. \<^verbatim>\<open>elements[k] !== element\<close> compares
  references, that is slots of the property table.
\<close>

definition duplicateInner :: "env \<Rightarrow> Element \<Rightarrow> Element list \<Rightarrow> visitor \<Rightarrow> visitor" where
  "duplicateInner e element elements v =
     fold
       (\<lambda>elements_k w.
          case getValue (node elements_k) of
            None \<Rightarrow> w
          | Some val \<Rightarrow>
              if charAt (documentText w) (offset val) \<noteq> ''-'' \<and> elements_k \<noteq> element
              then addEntry e (node element) DuplicateDeclarations None w
              else w)
       elements v"

definition duplicateStep :: "env \<Rightarrow> Element list \<Rightarrow> Element \<Rightarrow> visitor \<Rightarrow> visitor" where
  "duplicateStep e propertyTable element v =
     (if fullPropertyName element \<noteq> ''background'' \<and>
         \<not> validProperty v (fullPropertyName element) then
        (case getValue (node element) of
           None \<Rightarrow> v
         | Some val \<Rightarrow>
             if charAt (documentText v) (offset val) \<noteq> ''-'' then
               (let elements = fetch propertyTable (fullPropertyName element)
                in if length elements > 1 then duplicateInner e element elements v else v)
             else v)
      else v)"

definition duplicateChecks :: "env \<Rightarrow> Element list \<Rightarrow> visitor \<Rightarrow> visitor" where
  "duplicateChecks e propertyTable v = fold (duplicateStep e propertyTable) propertyTable v"

text \<open>
  Unknown and vendor-specific properties: the loop over the property table keeps the
  visitor, \<^verbatim>\<open>propertiesBySuffix\<close> and \<^verbatim>\<open>containsUnknowns\<close>. \<^verbatim>\<open>decl.getProperty()!\<close> is
  read after \<^verbatim>\<open>isCSSDeclaration\<close> has found the property.
\<close>

definition message_unknownProperty :: "string \<Rightarrow> string" where
  "message_unknownProperty nm = ''Unknown property: '' @ [CHR 0x27] @ nm @ [CHR 0x27]"

definition vendorStep ::
  "env \<Rightarrow> Element \<Rightarrow> visitor \<times> NodesByRootMap \<times> bool \<Rightarrow>
   error + visitor \<times> NodesByRootMap \<times> bool"
where
  "vendorStep e element st =
     (case st of
        (v, propertiesBySuffix, containsUnknowns) \<Rightarrow>
          (let decl = node element
           in if isCSSDeclaration decl then
                (let name = fullPropertyName element;
                     firstChar = charAt name 0
                 in if firstChar = ''-'' then
                      (if charAt name 1 \<noteq> ''-'' then
                         (let v1 =
                                (if \<not> isKnownProperty e name \<and> \<not> validProperty v name
                                 then addEntry e (the (getProperty decl))
                                        UnknownVendorSpecificProperty None v
                                 else v);
                              nonPrefixedName = getNonPrefixedPropertyName decl
                          in case add propertiesBySuffix nonPrefixedName name (getProperty decl) of
                               Inl err \<Rightarrow> Inl err
                             | Inr data \<Rightarrow> Inr (v1, data, containsUnknowns))
                       else Inr (v, propertiesBySuffix, containsUnknowns))
                    else
                      (let fullName = name;
                           hack = (firstChar = ''*'' \<or> firstChar = ''_'');
                           v1 =
                             (if hack then addEntry e (the (getProperty decl)) IEStarHack None v
                              else v);
                           name1 = (if hack then substr1 name else name);
                           v2 =
                             (if \<not> isKnownProperty e fullName \<and> \<not> isKnownProperty e name1 then
                                (if \<not> validProperty v1 name1
                                 then addEntry e (the (getProperty decl)) UnknownProperty
                                        (Some (message_unknownProperty (getFullPropertyName decl)))
                                        v1
                                 else v1)
                              else v1)
                       in case add propertiesBySuffix name1 name1 None of
                            Inl err \<Rightarrow> Inl err
                          | Inr data \<Rightarrow> Inr (v2, data, containsUnknowns)))
              else Inr (v, propertiesBySuffix, True)))"

text \<open>The loop over the property table ends at the first exception.\<close>

fun vendorLoop ::
  "env \<Rightarrow> Element list \<Rightarrow> visitor \<times> NodesByRootMap \<times> bool \<Rightarrow>
   error + visitor \<times> NodesByRootMap \<times> bool"
where
  "vendorLoop e [] st = Inr st"
| "vendorLoop e (element # rest) st =
     (case vendorStep e element st of
        Inl err \<Rightarrow> Inl err
      | Inr st' \<Rightarrow> vendorLoop e rest st')"

definition message_standardMissing :: "string \<Rightarrow> string" where
  "message_standardMissing suffix =
     ''Also define the standard property '' @ [CHR 0x27] @ suffix @ [CHR 0x27] @
     '' for compatibility''"

definition message_vendorMissing :: "string \<Rightarrow> string" where
  "message_vendorMissing missing =
     ''Always include all vendor specific properties: Missing: '' @ missing"

text \<open>A string or null as a condition: null and the empty string are falsy.\<close>

definition truthy :: "string option \<Rightarrow> bool" where
  "truthy r = (case r of None \<Rightarrow> False | Some s \<Rightarrow> s \<noteq> [])"

definition expectedNames :: "env \<Rightarrow> string \<Rightarrow> string list" where
  "expectedNames e suffix =
     fold
       (\<lambda>prefix expected.
          if isStandardProperty e (prefix @ suffix) then expected @ [prefix @ suffix]
          else expected)
       prefixes []"

definition vendorEntry :: "env \<Rightarrow> string \<times> Entry \<Rightarrow> visitor \<Rightarrow> visitor" where
  "vendorEntry e kv v =
     (case kv of
        (suffix, entry) \<Rightarrow>
          (let actual = names entry;
               needsStandard = (isStandardProperty e suffix \<and> indexOf actual suffix = None)
           in if \<not> needsStandard \<and> length actual = 1 then v
              else
                (let expected = expectedNames e suffix;
                     missingVendorSpecific = getMissingNames expected actual
                 in if truthy missingVendorSpecific \<or> needsStandard then
                      fold
                        (\<lambda>nd w.
                           (let w1 =
                                  (if needsStandard
                                   then addEntry e nd IncludeStandardPropertyWhenUsingVendorPrefix
                                          (Some (message_standardMissing suffix)) w
                                   else w)
                            in if truthy missingVendorSpecific
                               then addEntry e nd AllVendorPrefixes
                                      (Some (message_vendorMissing (the missingVendorSpecific))) w1
                               else w1))
                        (nodes entry) v
                    else v)))"

definition vendorChecks :: "env \<Rightarrow> Element list \<Rightarrow> visitor \<Rightarrow> error + visitor" where
  "vendorChecks e propertyTable v =
     (case vendorLoop e propertyTable (v, [], False) of
        Inl err \<Rightarrow> Inl err
      | Inr (v1, propertiesBySuffix, containsUnknowns) \<Rightarrow>
          Inr (if \<not> containsUnknowns then fold (vendorEntry e) (forIn propertiesBySuffix) v1
               else v1))"

definition visitRuleSet :: "env \<Rightarrow> node \<Rightarrow> visitor \<Rightarrow> error + bool \<times> visitor" where
  "visitRuleSet e n v =
     (case nclass n of
        RuleSetC selectors decls \<Rightarrow>
          (case decls of
             None \<Rightarrow> Inr (False, v)
           | Some declarations \<Rightarrow>
               (let v1 =
                      (if \<not> hasChildren declarations then addEntry e selectors EmptyRuleSet None v
                       else v);
                    propertyTable = propertyTableFrom e (children declarations) [];
                    boxModel = calculateBoxModel e propertyTable;
                    v2 = boxModelCheck e (bm_width boxModel) (bm_right boxModel)
                           (bm_left boxModel) v1;
                    v3 = boxModelCheck e (bm_height boxModel) (bm_top boxModel)
                           (bm_bottom boxModel) v2;
                    v4 = displayChecks e propertyTable v3;
                    v5 = floatChecks e propertyTable v4;
                    v6 = duplicateChecks e propertyTable v5;
                    isExportBlock = matches selectors '':export''
                in if \<not> isExportBlock then
                     (case vendorChecks e propertyTable v6 of
                        Inl err \<Rightarrow> Inl err
                      | Inr v7 \<Rightarrow> Inr (True, v7))
                   else Inr (True, v6)))
      | _ \<Rightarrow> Inr (False, v))"

subsection \<open>Dispatch and the whole pass\<close>

text \<open>
  \<^verbatim>\<open>visitNode\<close> (lines 151--177); the visits that call \<^verbatim>\<open>add\<close> can raise.
\<close>

definition visitNode ::
  "env \<Rightarrow> node list \<Rightarrow> node \<Rightarrow> visitor \<Rightarrow> error + bool \<times> visitor" where
  "visitNode e ancestors n v =
     (case ntype n of
        UnknownAtRule \<Rightarrow> Inr (visitUnknownAtRule e n v)
      | Keyframe \<Rightarrow> visitKeyframe n v
      | FontFace \<Rightarrow> Inr (visitFontFace e n v)
      | Ruleset \<Rightarrow> visitRuleSet e n v
      | SimpleSelector \<Rightarrow> Inr (visitSimpleSelector e n v)
      | Function \<Rightarrow> Inr (visitFunction e n v)
      | NumericValue \<Rightarrow> Inr (visitNumericValue e ancestors n v)
      | Import \<Rightarrow> Inr (visitImport e n v)
      | HexColorValue \<Rightarrow> Inr (visitHexColorValue e n v)
      | Prio \<Rightarrow> Inr (visitPrio e n v)
      | IdentifierSelector \<Rightarrow> Inr (visitIdentifierSelector e n v)
      | _ \<Rightarrow> Inr (True, v))"

text \<open>
  \<^verbatim>\<open>node.acceptVisitor(visitor)\<close> is \<^verbatim>\<open>accept\<close> with \<^verbatim>\<open>visitNode\<close>. An exception of a
  visit leaves the traversal: the state of the traversal is the visitor, or the
  exception that was raised, after which no node is visited.
\<close>

definition visitStep ::
  "env \<Rightarrow> node list \<Rightarrow> node \<Rightarrow> error + visitor \<Rightarrow> bool \<times> (error + visitor)" where
  "visitStep e ancestors n st =
     (case st of
        Inl err \<Rightarrow> (False, Inl err)
      | Inr v \<Rightarrow>
          (case visitNode e ancestors n v of
             Inl err \<Rightarrow> (False, Inl err)
           | Inr (descend, v') \<Rightarrow> (descend, Inr v')))"

definition acceptVisitor :: "env \<Rightarrow> node list \<Rightarrow> node \<Rightarrow> visitor \<Rightarrow> error + visitor" where
  "acceptVisitor e ancestors n v = accept (visitStep e) ancestors n (Inr v)"

text \<open>
  \<^verbatim>\<open>LintVisitor.entries\<close> (lines 37--42), with the text of the document; \<open>ancestors\<close>
  are the ancestors of the node handed in (none for a style sheet). An exception of the
  traversal is the outcome of the call.
\<close>

definition entries ::
  "env \<Rightarrow> node list \<Rightarrow> node \<Rightarrow> string \<Rightarrow> 32 word option \<Rightarrow> error + Marker list" where
  "entries e ancestors n text entryFilter =
     (case acceptVisitor e ancestors n (new_LintVisitor e text) of
        Inl err \<Rightarrow> Inl err
      | Inr visitor \<Rightarrow> Inr (getEntries e (completeValidations visitor) entryFilter))"

section \<open>Definitions for the statements\<close>

subsection \<open>Missing names\<close>

text \<open>
  The names of \<open>expected\<close> that are missing from \<open>actual\<close>, in the order of \<open>expected\<close>:
  each expected name is matched against one occurrence of it in \<open>actual\<close>, which is then
  used up.
\<close>

fun missingNames :: "string list \<Rightarrow> string list \<Rightarrow> string list" where
  "missingNames [] actual = []"
| "missingNames (x # expected) actual =
     (if x \<in> set actual then missingNames expected (remove1 x actual)
      else x # missingNames expected actual)"

text \<open>
  The list of names as a text: none for no name, the first name in quotes alone, every
  further name appended as \<^verbatim>\<open>{prior}, '{next}'\<close>.
\<close>

definition nameList :: "string list \<Rightarrow> string option" where
  "nameList ms =
     (case ms of
        [] \<Rightarrow> None
      | m # rest \<Rightarrow>
          Some (foldl (\<lambda>prior next. prior @ '', '' @ [CHR 0x27] @ next @ [CHR 0x27])
                  ([CHR 0x27] @ m @ [CHR 0x27]) rest))"

text \<open>The names that the slots of a clone still hold.\<close>

definition remaining :: "string option list \<Rightarrow> string list" where
  "remaining slots = concat (map (\<lambda>s. case s of None \<Rightarrow> [] | Some x \<Rightarrow> [x]) slots)"

subsection \<open>Arguments of a color function\<close>

text \<open>
  The binary expressions of a subtree that are not inside another binary expression.
\<close>

fun countBinaryExpressions :: "node \<Rightarrow> int" where
  "countBinaryExpressions (Node off l t cs c) =
     (if c = BinaryExpressionC then 1 else sum_list (map countBinaryExpressions cs))"

subsection \<open>Numeric values\<close>



subsection \<open>Markers added by a part of a visit\<close>

text \<open>\<open>emit ms v\<close> is the visitor \<open>v\<close> after the markers \<open>ms\<close> have been pushed.\<close>

definition emit :: "Marker list \<Rightarrow> visitor \<Rightarrow> visitor" where
  "emit ms v = v\<lparr>warnings := warnings v @ ms\<rparr>"

text \<open>\<open>v'\<close> is \<open>v\<close> after markers of the rules \<open>R\<close> have been pushed.\<close>

definition extends :: "Rule set \<Rightarrow> visitor \<Rightarrow> visitor \<Rightarrow> bool" where
  "extends R v v' = (\<exists>ms. v' = emit ms v \<and> (\<forall>m \<in> set ms. mrule m \<in> R))"

subsection \<open>Duplicate declarations\<close>

text \<open>
  A declaration has a value whose first character in the document is not \<^verbatim>\<open>-\<close>; an
  element counts for the duplicate check when its declaration has.
\<close>

definition valueNotDashed :: "string \<Rightarrow> node \<Rightarrow> bool" where
  "valueNotDashed text d =
     (case getValue d of
        None \<Rightarrow> False
      | Some val \<Rightarrow> charAt text (offset val) \<noteq> ''-'')"

definition qualifies :: "string \<Rightarrow> Element \<Rightarrow> bool" where
  "qualifies text el = valueNotDashed text (node el)"

definition duplicateMarker :: "env \<Rightarrow> Element \<Rightarrow> Marker" where
  "duplicateMarker e el =
     \<lparr>mnode = node el, mrule = DuplicateDeclarations,
      mlevel = getRule e DuplicateDeclarations, mdetails = None\<rparr>"

text \<open>
  The duplicate markers of one element of the property table: one for every other
  element of the same name that counts, when the element itself counts.
\<close>

definition duplicateMarkersFor ::
  "env \<Rightarrow> string \<Rightarrow> (string \<Rightarrow> bool) \<Rightarrow> Element list \<Rightarrow> Element \<Rightarrow> Marker list" where
  "duplicateMarkersFor e text valid table el =
     (if fullPropertyName el \<noteq> ''background'' \<and> \<not> valid (fullPropertyName el) \<and>
         qualifies text el \<and>
         length (filter (\<lambda>other. fullPropertyName other = fullPropertyName el) table) > 1
      then map (\<lambda>other. duplicateMarker e el)
             (filter (\<lambda>other. qualifies text other \<and> other \<noteq> el)
                (filter (\<lambda>other. fullPropertyName other = fullPropertyName el) table))
      else [])"

text \<open>
  The declarations of a declarations node, those of them with a given element name, and
  the number of duplicate markers on a node.
\<close>

definition blockDeclarations :: "node \<Rightarrow> node list" where
  "blockDeclarations declarations = filter isDeclarationInstance (children declarations)"

definition declarationsNamed :: "env \<Rightarrow> string \<Rightarrow> node \<Rightarrow> node list" where
  "declarationsNamed e s declarations =
     filter (\<lambda>d. elementName e d = s) (blockDeclarations declarations)"

definition duplicateMarkersOn :: "node \<Rightarrow> Marker list \<Rightarrow> nat" where
  "duplicateMarkersOn d ws =
     length (filter (\<lambda>m. mrule m = DuplicateDeclarations \<and> mnode m = d) ws)"

subsection \<open>The rules of the parts of a rule set visit\<close>

definition preRules :: "Rule set" where
  "preRules = {EmptyRuleSet, BewareOfBoxModelSize, PropertyIgnoredDueToDisplay, AvoidFloat}"

definition stepRules :: "Rule set" where
  "stepRules = {UnknownVendorSpecificProperty, IEStarHack, UnknownProperty}"

definition completenessRules :: "Rule set" where
  "completenessRules = {IncludeStandardPropertyWhenUsingVendorPrefix, AllVendorPrefixes}"

subsection \<open>The index of the properties of a block\<close>

text \<open>
  What one element of the property table adds to \<^verbatim>\<open>propertiesBySuffix\<close> and
  \<^verbatim>\<open>containsUnknowns\<close>, or the exception it raises, and the same for the whole table.
\<close>

definition vendorCollect ::
  "Element \<Rightarrow> NodesByRootMap \<times> bool \<Rightarrow> error + NodesByRootMap \<times> bool" where
  "vendorCollect element st =
     (case st of
        (propertiesBySuffix, containsUnknowns) \<Rightarrow>
          if isCSSDeclaration (node element) then
            (let name = fullPropertyName element
             in if charAt name 0 = ''-'' then
                  (if charAt name 1 \<noteq> ''-''
                   then (case add propertiesBySuffix (getNonPrefixedPropertyName (node element))
                                name (getProperty (node element)) of
                           Inl err \<Rightarrow> Inl err
                         | Inr data \<Rightarrow> Inr (data, containsUnknowns))
                   else Inr (propertiesBySuffix, containsUnknowns))
                else
                  (let name1 =
                         (if charAt name 0 = ''*'' \<or> charAt name 0 = ''_'' then substr1 name
                          else name)
                   in case add propertiesBySuffix name1 name1 None of
                        Inl err \<Rightarrow> Inl err
                      | Inr data \<Rightarrow> Inr (data, containsUnknowns)))
          else Inr (propertiesBySuffix, True))"

fun vendorCollectLoop ::
  "Element list \<Rightarrow> NodesByRootMap \<times> bool \<Rightarrow> error + NodesByRootMap \<times> bool" where
  "vendorCollectLoop [] st = Inr st"
| "vendorCollectLoop (element # rest) st =
     (case vendorCollect element st of
        Inl err \<Rightarrow> Inl err
      | Inr st' \<Rightarrow> vendorCollectLoop rest st')"

section \<open>Example inputs\<close>

text \<open>
  Classes of the syntax tree that the visitor does not name, with tags numbered for
  the examples.
\<close>

abbreviation NodelistC :: "node nodeClass" where "NodelistC \<equiv> OtherC 0"
abbreviation FunctionArgumentC :: "node nodeClass" where "FunctionArgumentC \<equiv> OtherC 1"
abbreviation ExpressionC :: "node nodeClass" where "ExpressionC \<equiv> OtherC 2"
abbreviation TermC :: "node nodeClass" where "TermC \<equiv> OtherC 3"
abbreviation DeclarationsC :: "node nodeClass" where "DeclarationsC \<equiv> OtherC 4"
abbreviation OperatorC :: "node nodeClass" where "OperatorC \<equiv> OtherC 5"
abbreviation AtRuleNameC :: "node nodeClass" where "AtRuleNameC \<equiv> OtherC 6"
abbreviation SelectorC :: "node nodeClass" where "SelectorC \<equiv> OtherC 7"

text \<open>
  An environment: every rule is a warning (level 2), no box model findings, the element
  name of a declaration is its full property name in lower case, no valid properties
  in the settings. \<open>parseFloatIsZero\<close>
  agrees with \<^verbatim>\<open>parseFloat\<close> on the two literals of the examples, \<^verbatim>\<open>0\<close> and \<^verbatim>\<open>1\<close>.
\<close>

definition exEnv :: env where
  "exEnv =
     \<lparr>getRule = (\<lambda>r. 2),
      isKnownProperty = (\<lambda>s. s \<in> set [''color'', ''width'', ''foo'', ''-s2-foo'']),
      isStandardProperty = (\<lambda>s. s \<in> set [''color'', ''width'', ''foo'', ''-s2-foo'']),
      getAtDirective = (\<lambda>s. s \<in> set [''@tailwind'']),
      units_length = [''em'', ''rem'', ''ex'', ''px'', ''cm'', ''mm'', ''in'', ''pt'', ''pc''],
      parseFloatIsZero = (\<lambda>s. s = ''0''),
      calculateBoxModel =
        (\<lambda>t. \<lparr>bm_width = None, bm_height = None,
              bm_top = \<lparr>side_value = False, side_properties = []\<rparr>,
              bm_right = \<lparr>side_value = False, side_properties = []\<rparr>,
              bm_bottom = \<lparr>side_value = False, side_properties = []\<rparr>,
              bm_left = \<lparr>side_value = False, side_properties = []\<rparr>\<rparr>),
      arrays_union = (\<lambda>a b. remdups (a @ b)),
      elementName = (\<lambda>d. toLowerCase (getFullPropertyName d)),
      Level_Warning = 2,
      Level_Error = 4,
      setting_ValidProperties = None\<rparr>"

text \<open>The visitor that the constructor builds for a document.\<close>

definition exVisitor :: "string \<Rightarrow> visitor" where
  "exVisitor text = new_LintVisitor exEnv text"

text \<open>A node around one child, with the child's range and text.\<close>

definition wrapNode :: "node nodeClass \<Rightarrow> node \<Rightarrow> node" where
  "wrapNode c n = Node (offset n) (nlength n) (getText n) [n] c"

definition exExpression :: "node \<Rightarrow> node" where
  "exExpression n = wrapNode ExpressionC (wrapNode BinaryExpressionC (wrapNode TermC n))"

definition exNumeric :: "nat \<Rightarrow> string \<Rightarrow> string \<Rightarrow> node" where
  "exNumeric off val unit =
     Node off (length (val @ unit)) (val @ unit) []
       (NumericValueC val (if unit = [] then None else Some unit))"

definition exIdentifier :: "nat \<Rightarrow> string \<Rightarrow> node" where
  "exIdentifier off text = Node off (length text) text [] (IdentifierC False)"

definition exProperty :: "nat \<Rightarrow> string \<Rightarrow> node" where
  "exProperty off name =
     Node off (length name) name [exIdentifier off name]
       (PropertyC (Some (exIdentifier off name)) name)"

text \<open>
  The declaration \<^verbatim>\<open>name: value\<close> at an offset; the value is an expression that
  starts two characters after the property.
\<close>

definition exDeclaration :: "nat \<Rightarrow> string \<Rightarrow> string \<Rightarrow> node \<Rightarrow> node" where
  "exDeclaration off name root val =
     Node off (length name + 2 + nlength val) (name @ '': '' @ getText val)
       [exProperty off name, val]
       (DeclarationC (Some (exProperty off name)) (Some val) name root)"

text \<open>A function \<^verbatim>\<open>name(arguments)\<close>; \<open>fname\<close> is what \<^verbatim>\<open>getName()\<close> answers.\<close>

definition exArguments :: "nat \<Rightarrow> string \<Rightarrow> node list \<Rightarrow> node" where
  "exArguments off text args =
     Node off (length text) text (map (wrapNode FunctionArgumentC) args) NodelistC"

definition exFunction :: "nat \<Rightarrow> string \<Rightarrow> string \<Rightarrow> node \<Rightarrow> node" where
  "exFunction off text fname arguments =
     Node off (length text) text [exIdentifier off fname, arguments] (FunctionC fname arguments)"

text \<open>The at-rule \<^verbatim>\<open>@foo { }\<close>, and the at-rule \<^verbatim>\<open>@tailwind { }\<close> that \<open>exEnv\<close> knows.\<close>

definition exAtRule :: "string \<Rightarrow> node" where
  "exAtRule name =
     Node 0 (length name + 4) (name @ '' { }'')
       [Node 0 (length name) name [] AtRuleNameC,
        Node (length name + 1) 3 ''{ }'' [] DeclarationsC]
       UnknownAtRuleC"

text \<open>
  The color functions \<^verbatim>\<open>rgb(1,2)\<close> and \<^verbatim>\<open>rgba(1,2,3)\<close>: every
  argument is an expression around a binary expression. \<^verbatim>\<open>getName()\<close> answers the
  name without the parenthesis, as it does for \<^verbatim>\<open>calc\<close> in \<^verbatim>\<open>visitNumericValue\<close>
  (line 468).
\<close>

definition exRgb12Arguments :: node where
  "exRgb12Arguments =
     exArguments 4 ''1,2''
       [exExpression (exNumeric 4 ''1'' []), exExpression (exNumeric 6 ''2'' [])]"

definition exRgb12 :: node where
  "exRgb12 = exFunction 0 ''rgb(1,2)'' ''rgb'' exRgb12Arguments"

definition exRgba123Arguments :: node where
  "exRgba123Arguments =
     exArguments 5 ''1,2,3''
       [exExpression (exNumeric 5 ''1'' []), exExpression (exNumeric 7 ''2'' []),
        exExpression (exNumeric 9 ''3'' [])]"

definition exRgba123 :: node where
  "exRgba123 = exFunction 0 ''rgba(1,2,3)'' ''rgba'' exRgba123Arguments"


definition exSum :: node where
  "exSum =
     Node 12 9 ''0px + 1px''
       [Node 12 9 ''0px + 1px''
          [wrapNode TermC (exNumeric 12 ''0'' ''px''), Node 16 1 ''+'' [] OperatorC,
           wrapNode TermC (exNumeric 18 ''1'' ''px'')]
          BinaryExpressionC]
       ExpressionC"

definition exCalcSumArguments :: node where
  "exCalcSumArguments = exArguments 12 ''0px + 1px'' [exSum]"

definition exCalcSum :: node where
  "exCalcSum = exFunction 7 ''calc(0px + 1px)'' ''calc'' exCalcSumArguments"











text \<open>
  A rule set \<^verbatim>\<open>.a { ... }\<close> with the given text and declarations; the declarations
  node starts at the brace.
\<close>

definition exSelectors :: node where
  "exSelectors = Node 0 2 ''.a'' [Node 0 2 ''.a'' [] SelectorC] NodelistC"

definition exDeclarations :: "string \<Rightarrow> node list \<Rightarrow> node" where
  "exDeclarations text decls = Node 3 (length text - 3) (drop 3 text) decls DeclarationsC"

definition exRuleSet :: "string \<Rightarrow> node list \<Rightarrow> node" where
  "exRuleSet text decls =
     Node 0 (length text) text [exSelectors, exDeclarations text decls]
       (RuleSetC exSelectors (Some (exDeclarations text decls)))"

definition exColor :: "nat \<Rightarrow> string \<Rightarrow> node" where
  "exColor off val =
     exDeclaration off ''color'' ''color'' (exExpression (exIdentifier (off + 7) val))"

text \<open>
  The documents \<^verbatim>\<open>.a { color: red; color: blue; }\<close>,
  \<^verbatim>\<open>.a { color: red; color: -blue; }\<close>, \<^verbatim>\<open>.a { color: red; }\<close> and
  \<^verbatim>\<open>.a { color: red; color: blue; color: green; }\<close>.
\<close>

definition exRedBlueText :: string where
  "exRedBlueText = ''.a { color: red; color: blue; }''"

definition exRedBlue :: node where
  "exRedBlue = exRuleSet exRedBlueText [exColor 5 ''red'', exColor 17 ''blue'']"

definition exRedDashBlueText :: string where
  "exRedDashBlueText = ''.a { color: red; color: -blue; }''"

definition exRedDashBlue :: node where
  "exRedDashBlue = exRuleSet exRedDashBlueText [exColor 5 ''red'', exColor 17 ''-blue'']"

definition exRedText :: string where
  "exRedText = ''.a { color: red; }''"

definition exRed :: node where
  "exRed = exRuleSet exRedText [exColor 5 ''red'']"

definition exThreeColorsText :: string where
  "exThreeColorsText = ''.a { color: red; color: blue; color: green; }''"

definition exThreeColors :: node where
  "exThreeColors =
     exRuleSet exThreeColorsText [exColor 5 ''red'', exColor 17 ''blue'', exColor 30 ''green'']"

text \<open>
  The documents \<^verbatim>\<open>.a { -s2-foo: 1; foo: 1; }\<close> and \<^verbatim>\<open>.a { -s2-foo: 1; }\<close>.
\<close>

definition exPrefixedFoo :: node where
  "exPrefixedFoo = exDeclaration 5 ''-s2-foo'' ''foo'' (exExpression (exNumeric 14 ''1'' []))"

definition exFoo :: node where
  "exFoo = exDeclaration 17 ''foo'' ''foo'' (exExpression (exNumeric 22 ''1'' []))"

definition exBothFooText :: string where
  "exBothFooText = ''.a { -s2-foo: 1; foo: 1; }''"

definition exBothFoo :: node where
  "exBothFoo = exRuleSet exBothFooText [exPrefixedFoo, exFoo]"

definition exOnlyPrefixedFooText :: string where
  "exOnlyPrefixedFooText = ''.a { -s2-foo: 1; }''"

definition exOnlyPrefixedFoo :: node where
  "exOnlyPrefixedFoo = exRuleSet exOnlyPrefixedFooText [exPrefixedFoo]"

text \<open>
  The document \<^verbatim>\<open>.a { constructor: red; constructor: blue; }\<close>.
\<close>

definition exConstructor :: "nat \<Rightarrow> string \<Rightarrow> node" where
  "exConstructor off val =
     exDeclaration off ''constructor'' ''constructor''
       (exExpression (exIdentifier (off + 13) val))"

definition exTwoConstructorsText :: string where
  "exTwoConstructorsText = ''.a { constructor: red; constructor: blue; }''"

definition exTwoConstructorsDeclarations :: node where
  "exTwoConstructorsDeclarations =
     exDeclarations exTwoConstructorsText [exConstructor 5 ''red'', exConstructor 23 ''blue'']"

definition exTwoConstructors :: node where
  "exTwoConstructors =
     exRuleSet exTwoConstructorsText [exConstructor 5 ''red'', exConstructor 23 ''blue'']"

section \<open>Properties\<close>

subsection \<open>Missing names\<close>

lemma remaining_simps [simp]:
  "remaining [] = []"
  "remaining (None # slots) = remaining slots"
  "remaining (Some x # slots) = x # remaining slots"
  by (simp_all add: remaining_def)

lemma remaining_map_Some [simp]: "remaining (map Some xs) = xs"
  by (induction xs) simp_all

lemma remaining_clearSlot: "remaining (clearSlot slots a) = remove1 a (remaining slots)"
proof (induction slots)
  case Nil
  show ?case by (simp add: clearSlot_def)
next
  case (Cons s slots)
  show ?case
  proof (cases s)
    case None
    with Cons show ?thesis
      by (auto simp: clearSlot_def split: option.splits)
  next
    case (Some x)
    with Cons show ?thesis
      by (auto simp: clearSlot_def split: option.splits)
  qed
qed

lemma remaining_fold_clearSlot:
  "remaining (fold (\<lambda>a clone. clearSlot clone a) actual slots) =
     fold remove1 actual (remaining slots)"
  by (induction actual arbitrary: slots) (simp_all add: remaining_clearSlot)

lemma fold_remove1_Cons:
  "fold remove1 actual (x # expected) =
     (if x \<in> set actual then fold remove1 (remove1 x actual) expected
      else x # fold remove1 actual expected)"
  by (induction actual arbitrary: expected) auto

lemma fold_remove1_Nil [simp]: "fold remove1 actual [] = []"
  by (induction actual) simp_all

lemma fold_remove1_missingNames: "fold remove1 actual expected = missingNames expected actual"
  by (induction expected arbitrary: actual) (simp_all add: fold_remove1_Cons)

lemma joinSlots_general:
  "joinSlots slots r =
     (case r of
        None \<Rightarrow> nameList (filter (\<lambda>nm. nm \<noteq> []) (remaining slots))
      | Some s \<Rightarrow>
          Some (foldl (\<lambda>prior next. prior @ '', '' @ [CHR 0x27] @ next @ [CHR 0x27]) s
                  (filter (\<lambda>nm. nm \<noteq> []) (remaining slots))))"
proof (induction slots arbitrary: r)
  case Nil
  show ?case by (simp add: nameList_def split: option.splits)
next
  case (Cons s slots)
  show ?case
    by (cases s; cases r)
       (simp_all add: Cons nameList_def namelist_single_def namelist_concatenated_def)
qed

lemma getMissingNames_eq:
  "getMissingNames expected actual =
     nameList (filter (\<lambda>nm. nm \<noteq> []) (missingNames expected actual))"
  by (simp add: getMissingNames_def joinSlots_general remaining_fold_clearSlot
      fold_remove1_missingNames)

text \<open>
  The matching of \<open>missingNames\<close> counts occurrences: nothing is missing exactly when
  \<open>expected\<close> is contained in \<open>actual\<close> as a multiset.
\<close>

lemma mset_missingNames: "mset (missingNames expected actual) = mset expected - mset actual"
proof (induction expected arbitrary: actual)
  case Nil
  show ?case by simp
next
  case (Cons x expected)
  show ?case
  proof (cases "x \<in> set actual")
    case True
    then show ?thesis by (simp add: Cons multiset_eq_iff)
  next
    case False
    then have "count (mset actual) x = 0" by (simp add: count_eq_zero_iff)
    then show ?thesis using False by (simp add: Cons multiset_eq_iff)
  qed
qed

lemma missingNames_Nil_iff:
  "missingNames expected actual = [] \<longleftrightarrow> mset expected \<subseteq># mset actual"
proof -
  have "missingNames expected actual = [] \<longleftrightarrow> mset (missingNames expected actual) = {#}"
    by simp
  also have "\<dots> \<longleftrightarrow> mset expected \<subseteq># mset actual"
    by (simp add: mset_missingNames Diff_eq_empty_iff_mset)
  finally show ?thesis .
qed

text \<open>
  Claim C3, as stated: for all lists \<open>expected\<close> and \<open>actual\<close>, \<^verbatim>\<open>getMissingNames\<close> returns
  null when every expected name is matched by an occurrence of its own in \<open>actual\<close>, and
  otherwise the text of the missing names. It fails for an expected name that is the empty
  string: the name is missing, and the result is null.
\<close>

theorem getMissingNames_empty_name_counterexample:
  "getMissingNames [[]] [] = None \<and> missingNames [[]] [] = [[]] \<and>
   nameList (missingNames [[]] []) = Some [CHR 0x27, CHR 0x27]"
  by (simp add: getMissingNames_def nameList_def)

text \<open>
  Claim C3, amended: for all lists \<open>expected\<close> and \<open>actual\<close>, \<^verbatim>\<open>getMissingNames\<close> returns
  the text of the missing names that are not the empty string, in the order of
  \<open>expected\<close>: null when there is none, the first one in quotes alone, every further one
  appended as \<^verbatim>\<open>{prior}, '{next}'\<close>. Nothing is missing exactly when every expected name
  is matched by an occurrence of its own in \<open>actual\<close>.
\<close>

theorem getMissingNames_missing_names:
  "getMissingNames expected actual =
     nameList (filter (\<lambda>nm. nm \<noteq> []) (missingNames expected actual)) \<and>
   (missingNames expected actual = [] \<longleftrightarrow> mset expected \<subseteq># mset actual)"
  by (simp add: getMissingNames_eq missingNames_Nil_iff)

subsection \<open>Filtering the markers\<close>

lemma js_filter_eq: "js_filter p xs kept = kept @ filter p xs"
  by (induction xs arbitrary: kept) simp_all

text \<open>
  Claim C8: for every list of accumulated markers and every mask \<open>M\<close>, \<^verbatim>\<open>getEntries(M)\<close>
  returns the markers whose level has a bit in common with \<open>M\<close>, in their order; applied
  to its own result it returns that result.
\<close>

theorem getEntries_projection:
  "getEntries e v (Some M) = filter (\<lambda>entry. (mlevel entry AND M) \<noteq> 0) (warnings v) \<and>
   getEntries e (v\<lparr>warnings := getEntries e v (Some M)\<rparr>) (Some M) = getEntries e v (Some M)"
  by (simp add: getEntries_def js_filter_eq)

subsection \<open>The completion step\<close>

lemma validateKeyframesLoop_id: "validateKeyframesLoop d v = v"
proof (induction d)
  case Nil
  show ?case by simp
next
  case (Cons kv d)
  then show ?case by (cases kv) (simp add: Let_def)
qed

text \<open>
  Claim C9: for every state of the keyframes index, the completion step
  (\<^verbatim>\<open>completeValidations\<close>, \<^verbatim>\<open>validateKeyframes\<close>) leaves the markers as they are; it
  returns the visitor unchanged.
\<close>

theorem completeValidations_no_marker:
  "validateKeyframes v = (True, v) \<and> completeValidations v = v \<and>
   warnings (completeValidations v) = warnings v"
  by (simp add: completeValidations_def validateKeyframes_def validateKeyframesLoop_id)

subsection \<open>Hex colors\<close>

text \<open>
  Claim C5: the visit of a hex color node returns false and leaves the visitor with its
  warnings followed by one \<open>HexColorLength\<close> marker on the node when the length of the
  node is not 4, 5, 7 or 9, and by nothing when it is; the traversal of a hex color node
  is the visit of the node alone, whatever its children.
\<close>

theorem visitHexColorValue_length:
  "visitHexColorValue e n v =
     (False,
      v\<lparr>warnings := warnings v @
          (if nlength n \<in> {4, 5, 7, 9} then []
           else [\<lparr>mnode = n, mrule = HexColorLength, mlevel = getRule e HexColorLength,
                  mdetails = None\<rparr>])\<rparr>) \<and>
   acceptVisitor e ancestors (Node off l t cs HexColorValueC) v =
     Inr (v\<lparr>warnings := warnings v @
            (if l \<in> {4, 5, 7, 9} then []
             else [\<lparr>mnode = Node off l t cs HexColorValueC, mrule = HexColorLength,
                    mlevel = getRule e HexColorLength, mdetails = None\<rparr>])\<rparr>)"
  by (auto simp: visitHexColorValue_def acceptVisitor_def visitStep_def visitNode_def ntype_def
      addEntry_def Let_def)

subsection \<open>Unknown at-rules\<close>

text \<open>
  Claim C1, amended: at an unknown-at-rule node with first child \<open>c\<close>, when the text of
  \<open>c\<close> is not recognized by \<^verbatim>\<open>getAtDirective\<close> the visit adds an \<open>UnknownAtRules\<close> marker
  on \<open>c\<close> with the detail \<^verbatim>\<open>Unknown at rule\<close> and the text, and returns true, so the
  traversal goes on into the children of the node; when the text is recognized the visit
  adds no marker and returns false, and the traversal of the node ends there.
\<close>

theorem visitUnknownAtRule_unrecognized_descends:
  "(\<not> getAtDirective e (getText c) \<longrightarrow>
      visitUnknownAtRule e (Node off l t (c # cs) UnknownAtRuleC) v =
        (True, v\<lparr>warnings := warnings v @
                 [\<lparr>mnode = c, mrule = UnknownAtRules, mlevel = getRule e UnknownAtRules,
                   mdetails = Some (''Unknown at rule '' @ getText c)\<rparr>]\<rparr>) \<and>
      acceptVisitor e ancestors (Node off l t (c # cs) UnknownAtRuleC) v =
        acceptAll (visitStep e) (Node off l t (c # cs) UnknownAtRuleC # ancestors) (c # cs)
          (Inr (v\<lparr>warnings := warnings v @
                 [\<lparr>mnode = c, mrule = UnknownAtRules, mlevel = getRule e UnknownAtRules,
                   mdetails = Some (''Unknown at rule '' @ getText c)\<rparr>]\<rparr>))) \<and>
   (getAtDirective e (getText c) \<longrightarrow>
      visitUnknownAtRule e (Node off l t (c # cs) UnknownAtRuleC) v = (False, v) \<and>
      acceptVisitor e ancestors (Node off l t (c # cs) UnknownAtRuleC) v = Inr v)"
  by (simp add: visitUnknownAtRule_def getChild0_def addEntry_def acceptVisitor_def
      visitStep_def visitNode_def ntype_def)

text \<open>
  Claim C1, as stated: for an unrecognized at-rule the visit returns false. For the
  at-rule \<^verbatim>\<open>@foo { }\<close>, which \<open>exEnv\<close> does not recognize, it returns true.
\<close>

theorem visitUnknownAtRule_unrecognized_counterexample:
  "getChild0 (exAtRule ''@foo'') = Some (Node 0 4 ''@foo'' [] AtRuleNameC) \<and>
   \<not> getAtDirective exEnv ''@foo'' \<and>
   fst (visitUnknownAtRule exEnv (exAtRule ''@foo'') (exVisitor ''@foo { }'')) = True"
  by (simp add: visitUnknownAtRule_def getChild0_def exAtRule_def exEnv_def)

text \<open>
  The amended claim C1 at \<^verbatim>\<open>@foo { }\<close>, not recognized, and at \<^verbatim>\<open>@tailwind { }\<close>,
  recognized.
\<close>

theorem visitUnknownAtRule_witness:
  "visitUnknownAtRule exEnv (exAtRule ''@foo'') (exVisitor ''@foo { }'') =
     (True, (exVisitor ''@foo { }'')\<lparr>warnings :=
        [\<lparr>mnode = Node 0 4 ''@foo'' [] AtRuleNameC, mrule = UnknownAtRules, mlevel = 2,
          mdetails = Some ''Unknown at rule @foo''\<rparr>]\<rparr>) \<and>
   visitUnknownAtRule exEnv (exAtRule ''@tailwind'') (exVisitor ''@tailwind { }'') =
     (False, exVisitor ''@tailwind { }'') \<and>
   acceptVisitor exEnv [] (exAtRule ''@tailwind'') (exVisitor ''@tailwind { }'') =
     Inr (exVisitor ''@tailwind { }'')"
proof -
  have unknown: "\<not> getAtDirective exEnv (getText (Node 0 4 ''@foo'' [] AtRuleNameC))"
    and known: "getAtDirective exEnv (getText (Node 0 9 ''@tailwind'' [] AtRuleNameC))"
    and level: "getRule exEnv UnknownAtRules = 2"
    by (simp_all add: exEnv_def)
  have foo: "exAtRule ''@foo'' =
      Node 0 8 ''@foo { }''
        (Node 0 4 ''@foo'' [] AtRuleNameC # [Node 5 3 ''{ }'' [] DeclarationsC]) UnknownAtRuleC"
    and tailwind: "exAtRule ''@tailwind'' =
      Node 0 13 ''@tailwind { }''
        (Node 0 9 ''@tailwind'' [] AtRuleNameC # [Node 10 3 ''{ }'' [] DeclarationsC])
        UnknownAtRuleC"
    by (simp_all add: exAtRule_def)
  have empty: "warnings (exVisitor ''@foo { }'') = []"
    by (simp add: exVisitor_def new_LintVisitor_def)
  note thm1 = visitUnknownAtRule_unrecognized_descends
      [of exEnv "Node 0 4 ''@foo'' [] AtRuleNameC" 0 8 "''@foo { }''"
          "[Node 5 3 ''{ }'' [] DeclarationsC]" "exVisitor ''@foo { }''" "[]"]
  note thm2 = visitUnknownAtRule_unrecognized_descends
      [of exEnv "Node 0 9 ''@tailwind'' [] AtRuleNameC" 0 13 "''@tailwind { }''"
          "[Node 10 3 ''{ }'' [] DeclarationsC]" "exVisitor ''@tailwind { }''" "[]"]
  from thm1 unknown have
    "visitUnknownAtRule exEnv (exAtRule ''@foo'') (exVisitor ''@foo { }'') =
       (True, (exVisitor ''@foo { }'')\<lparr>warnings :=
          [\<lparr>mnode = Node 0 4 ''@foo'' [] AtRuleNameC, mrule = UnknownAtRules, mlevel = 2,
            mdetails = Some ''Unknown at rule @foo''\<rparr>]\<rparr>)"
    unfolding foo by (simp add: level empty)
  moreover from thm2 known have
    "visitUnknownAtRule exEnv (exAtRule ''@tailwind'') (exVisitor ''@tailwind { }'') =
       (False, exVisitor ''@tailwind { }'') \<and>
     acceptVisitor exEnv [] (exAtRule ''@tailwind'') (exVisitor ''@tailwind { }'') =
       Inr (exVisitor ''@tailwind { }'')"
    unfolding tailwind by blast
  ultimately show ?thesis by blast
qed

subsection \<open>Color functions\<close>

lemma accept_countArgument:
  "accept countArgument ancestors n k = k + countBinaryExpressions n"
  "acceptAll countArgument ancestors ns k = k + sum_list (map countBinaryExpressions ns)"
proof (induction countArgument ancestors n k and countArgument ancestors ns k
       rule: accept_acceptAll.induct)
  case (1 ancestors off l t cs c s)
  show ?case
  proof (cases "c = BinaryExpressionC")
    case True
    then show ?thesis by (simp add: countArgument_def isBinaryExpressionInstance_def)
  next
    case False
    then have nb: "\<not> isBinaryExpressionInstance (Node off l t cs c)"
      by (cases c) (simp_all add: isBinaryExpressionInstance_def)
    then have "countArgument ancestors (Node off l t cs c) s = (True, s)"
      by (simp add: countArgument_def)
    with 1 False show ?thesis by simp
  qed
next
  case (2 ancestors s)
  show ?case by simp
next
  case (3 ancestors child rest s)
  then show ?case by simp
qed

text \<open>
  A function node whose name, in lower case, is \<^verbatim>\<open>rgb(\<close>, \<^verbatim>\<open>hsl(\<close>, \<^verbatim>\<open>rgba(\<close> or
  \<^verbatim>\<open>hsla(\<close>, with the parenthesis: the visit counts the binary expressions of the
  arguments that are not inside another binary expression, and pushes one
  \<open>ArgsInColorFunction\<close> marker on the node exactly when the count is not 3 (\<^verbatim>\<open>rgb(\<close>,
  \<^verbatim>\<open>hsl(\<close>) or 4 (\<^verbatim>\<open>rgba(\<close>, \<^verbatim>\<open>hsla(\<close>). A function node of any other name gets no
  marker.
\<close>

lemma visitFunction_name_with_parenthesis:
  assumes "nclass n = FunctionC name arguments"
    and "toLowerCase name \<in> {''rgb('', ''hsl('', ''rgba('', ''hsla(''}"
  shows "visitFunction e n v =
           (True,
            v\<lparr>warnings := warnings v @
                (if countBinaryExpressions arguments =
                      (if toLowerCase name \<in> {''rgb('', ''hsl(''} then 3 else 4)
                 then []
                 else [\<lparr>mnode = n, mrule = ArgsInColorFunction,
                        mlevel = getRule e ArgsInColorFunction, mdetails = None\<rparr>])\<rparr>)"
  using assms by (auto simp: visitFunction_def Let_def accept_countArgument addEntry_def)

lemma visitFunction_other_name:
  assumes "nclass n = FunctionC name arguments"
    and "toLowerCase name \<notin> {''rgb('', ''hsl('', ''rgba('', ''hsla(''}"
  shows "visitFunction e n v = (True, v)"
  using assms by (auto simp: visitFunction_def Let_def)

text \<open>
  Claim C6, at the functions \<^verbatim>\<open>rgb(1,2)\<close> and \<^verbatim>\<open>rgba(1,2,3)\<close>: the claim expects one
  \<open>ArgsInColorFunction\<close> marker on each. The name of a function node carries no
  parenthesis (\<^verbatim>\<open>visitNumericValue\<close> compares it with \<^verbatim>\<open>calc\<close>), \<^verbatim>\<open>visitFunction\<close>
  compares it with \<^verbatim>\<open>rgb(\<close> and \<^verbatim>\<open>rgba(\<close>, and so the visit counts nothing and pushes no
  marker, although \<^verbatim>\<open>rgb(1,2)\<close> has two arguments and \<^verbatim>\<open>rgba(1,2,3)\<close> three; the
  traversal of either function pushes none.
\<close>

theorem visitFunction_rgb_name_without_parenthesis:
  "getName exCalcSum = ''calc'' \<and> getName exRgb12 = ''rgb'' \<and> getName exRgba123 = ''rgba'' \<and>
   countBinaryExpressions exRgb12Arguments = 2 \<and>
   countBinaryExpressions exRgba123Arguments = 3 \<and>
   visitFunction exEnv exRgb12 (exVisitor ''rgb(1,2)'') = (True, exVisitor ''rgb(1,2)'') \<and>
   visitFunction exEnv exRgba123 (exVisitor ''rgba(1,2,3)'') =
     (True, exVisitor ''rgba(1,2,3)'') \<and>
   acceptVisitor exEnv [] exRgb12 (exVisitor ''rgb(1,2)'') = Inr (exVisitor ''rgb(1,2)'') \<and>
   acceptVisitor exEnv [] exRgba123 (exVisitor ''rgba(1,2,3)'') =
     Inr (exVisitor ''rgba(1,2,3)'')"
  by code_simp

subsection \<open>Zero with a unit\<close>






subsection \<open>The parts of a rule set visit\<close>

lemma emit_simps [simp]:
  "warnings (emit ms v) = warnings v @ ms"
  "documentText (emit ms v) = documentText v"
  "validProperties (emit ms v) = validProperties v"
  "keyframes (emit ms v) = keyframes v"
  "emit [] v = v"
  "emit b (emit a v) = emit (a @ b) v"
  by (simp_all add: emit_def)

lemma validProperty_emit [simp]: "validProperty (emit ms v) = validProperty v"
  by (rule ext) (simp add: validProperty_def)

lemma validProperty_cong:
  "validProperties w = validProperties v \<Longrightarrow> validProperty w = validProperty v"
  by (rule ext) (simp add: validProperty_def)

lemma addEntry_emit:
  "addEntry e n rule details v =
     emit [\<lparr>mnode = n, mrule = rule, mlevel = getRule e rule, mdetails = details\<rparr>] v"
  by (simp add: addEntry_def emit_def)

lemma extends_refl: "extends R v v"
  unfolding extends_def by (rule exI [of _ "[]"]) simp

lemma extends_trans: "extends R v w \<Longrightarrow> extends R w w' \<Longrightarrow> extends R v w'"
  unfolding extends_def
proof (elim exE conjE)
  fix ms ns
  assume "w = emit ms v" "\<forall>m\<in>set ms. mrule m \<in> R" "w' = emit ns w" "\<forall>m\<in>set ns. mrule m \<in> R"
  then have "w' = emit (ms @ ns) v \<and> (\<forall>m\<in>set (ms @ ns). mrule m \<in> R)" by auto
  then show "\<exists>ms. w' = emit ms v \<and> (\<forall>m\<in>set ms. mrule m \<in> R)" by blast
qed

lemma extends_mono: "extends R v w \<Longrightarrow> R \<subseteq> S \<Longrightarrow> extends S v w"
  unfolding extends_def by blast

lemma extends_emit: "\<forall>m\<in>set ms. mrule m \<in> R \<Longrightarrow> extends R v (emit ms v)"
  unfolding extends_def by blast

lemma extends_addEntry: "extends R v w \<Longrightarrow> rule \<in> R \<Longrightarrow> extends R v (addEntry e n rule d w)"
  by (erule extends_trans) (simp add: addEntry_emit extends_emit)

lemma extends_fold:
  assumes "extends R v w" and "\<And>x u. extends R u (f x u)"
  shows "extends R v (fold f xs w)"
  using assms(1)
proof (induction xs arbitrary: w)
  case Nil
  then show ?case by simp
next
  case (Cons x xs)
  from Cons.prems assms(2) [of w x] have "extends R v (f x w)" by (rule extends_trans)
  then show ?case by (simp add: Cons.IH)
qed

lemma extends_fields:
  assumes "extends R v w"
  shows "documentText w = documentText v" "validProperties w = validProperties v"
    "keyframes w = keyframes v" "validProperty w = validProperty v"
  using assms unfolding extends_def by auto

lemma extends_filter:
  assumes "extends R v w" and "\<And>m. P m \<Longrightarrow> mrule m \<notin> R"
  shows "filter P (warnings w) = filter P (warnings v)"
proof -
  from assms(1) obtain ms where w: "w = emit ms v" and ms: "\<forall>m\<in>set ms. mrule m \<in> R"
    unfolding extends_def by blast
  from ms assms(2) have "filter P ms = []" by (auto simp: filter_empty_conv)
  with w show ?thesis by simp
qed

lemma extends_boxModelCheck: "extends preRules v (boxModelCheck e dim s1 s2 v)"
  by (auto simp: boxModelCheck_def Let_def preRules_def split: option.splits
      intro!: extends_addEntry extends_fold extends_refl)

lemma extends_displayChecks: "extends preRules v (displayChecks e table v)"
  by (auto simp: displayChecks_def Let_def preRules_def split: option.splits
      intro!: extends_addEntry extends_fold extends_refl)

lemma extends_floatChecks: "extends preRules v (floatChecks e table v)"
  by (auto simp: floatChecks_def Let_def preRules_def split: option.splits
      intro!: extends_addEntry extends_fold extends_refl)

lemma fetch_fold:
  "fold (\<lambda>curr elements. if fullPropertyName curr = s then elements @ [curr] else elements)
     input acc = acc @ filter (\<lambda>el. fullPropertyName el = s) input"
  by (induction input arbitrary: acc) simp_all

lemma fetch_filter: "fetch input s = filter (\<lambda>el. fullPropertyName el = s) input"
  by (simp add: fetch_def fetch_fold)

lemma fold_emit:
  assumes step: "\<And>x w. documentText w = documentText v \<Longrightarrow>
      validProperties w = validProperties v \<Longrightarrow> f x w = emit (g x) w"
    and same: "documentText w = documentText v" "validProperties w = validProperties v"
  shows "fold f xs w = emit (concat (map g xs)) w"
  using same
proof (induction xs arbitrary: w)
  case Nil
  show ?case by simp
next
  case (Cons x xs)
  have "fold f (x # xs) w = fold f xs (emit (g x) w)"
    by (simp add: step Cons.prems)
  also have "\<dots> = emit (concat (map g xs)) (emit (g x) w)"
    by (rule Cons.IH) (simp_all add: Cons.prems)
  finally show ?case by simp
qed

lemma duplicateInner_emit:
  "duplicateInner e element elements v =
     emit (map (\<lambda>other. duplicateMarker e element)
             (filter (\<lambda>other. qualifies (documentText v) other \<and> other \<noteq> element) elements)) v"
proof -
  have "duplicateInner e element elements v =
      emit (concat (map (\<lambda>other. if qualifies (documentText v) other \<and> other \<noteq> element
                                 then [duplicateMarker e element] else []) elements)) v"
    unfolding duplicateInner_def
    by (rule fold_emit [where v = v])
       (auto simp: qualifies_def valueNotDashed_def addEntry_emit duplicateMarker_def
         split: option.splits)
  also have "concat (map (\<lambda>other. if qualifies (documentText v) other \<and> other \<noteq> element
                                 then [duplicateMarker e element] else []) elements) =
      map (\<lambda>other. duplicateMarker e element)
        (filter (\<lambda>other. qualifies (documentText v) other \<and> other \<noteq> element) elements)"
    by (induction elements) simp_all
  finally show ?thesis .
qed

lemma duplicateStep_emit:
  "duplicateStep e table element v =
     emit (duplicateMarkersFor e (documentText v) (validProperty v) table element) v"
  by (auto simp: duplicateStep_def duplicateMarkersFor_def duplicateInner_emit fetch_filter
      qualifies_def valueNotDashed_def Let_def split: option.splits)

lemma duplicateChecks_emit:
  "duplicateChecks e table v =
     emit (concat (map (duplicateMarkersFor e (documentText v) (validProperty v) table) table))
       v"
  unfolding duplicateChecks_def
proof (rule fold_emit [where v = v])
  fix x and w :: visitor
  assume "documentText w = documentText v" "validProperties w = validProperties v"
  then show "duplicateStep e table x w =
      emit (duplicateMarkersFor e (documentText v) (validProperty v) table x) w"
    by (simp add: duplicateStep_emit validProperty_cong [of w v])
qed simp_all

lemma duplicateMarkersFor_nodes:
  "m \<in> set (duplicateMarkersFor e text valid table el) \<Longrightarrow>
   mnode m = node el \<and> mrule m = DuplicateDeclarations"
  by (auto simp: duplicateMarkersFor_def duplicateMarker_def split: if_splits)

text \<open>
  The loop over the property table raises exactly when the index of the properties does;
  when it returns, it has pushed markers of its three rules only.
\<close>

lemma vendorStep_collect:
  "(case vendorStep e element (v, m, cu) of
      Inl err \<Rightarrow> vendorCollect element (m, cu) = Inl err
    | Inr (v', st') \<Rightarrow> extends stepRules v v' \<and> vendorCollect element (m, cu) = Inr st')"
  by (auto simp: vendorStep_def vendorCollect_def Let_def stepRules_def split: sum.splits
      intro!: extends_addEntry extends_refl)

lemma vendorLoop_collect:
  "(case vendorLoop e table (v, st) of
      Inl err \<Rightarrow> vendorCollectLoop table st = Inl err
    | Inr (v', st') \<Rightarrow> extends stepRules v v' \<and> vendorCollectLoop table st = Inr st')"
proof (induction table arbitrary: v st)
  case Nil
  show ?case by (simp add: extends_refl)
next
  case (Cons el table)
  obtain m cu where st: "st = (m, cu)" by (cases st)
  show ?case
  proof (cases "vendorStep e el (v, m, cu)")
    case (Inl err)
    with vendorStep_collect [where e = e and element = el and v = v and m = m and cu = cu] have "vendorCollect el (m, cu) = Inl err"
      by simp
    with Inl show ?thesis by (simp add: st)
  next
    case (Inr r)
    obtain v1 st1 where r: "r = (v1, st1)" by (cases r)
    from vendorStep_collect [where e = e and element = el and v = v and m = m and cu = cu] Inr r
    have e1: "extends stepRules v v1" and c1: "vendorCollect el (m, cu) = Inr st1"
      by simp_all
    show ?thesis
    proof (cases "vendorLoop e table (v1, st1)")
      case (Inl err)
      with Cons.IH [where v = v1 and st = st1] have "vendorCollectLoop table st1 = Inl err" by simp
      with Inl show ?thesis by (simp add: st Inr r c1)
    next
      case (Inr r2)
      obtain v2 st2 where r2: "r2 = (v2, st2)" by (cases r2)
      from Cons.IH [where v = v1 and st = st1] Inr r2
      have e2: "extends stepRules v1 v2" and c2: "vendorCollectLoop table st1 = Inr st2"
        by simp_all
      from e1 e2 have "extends stepRules v v2" by (rule extends_trans)
      with Inr r2 c2 show ?thesis by (simp add: st \<open>vendorStep e el (v, m, cu) = Inr r\<close> r c1)
    qed
  qed
qed

lemma extends_vendorEntry: "extends completenessRules v (vendorEntry e kv v)"
  by (cases kv)
     (auto simp: vendorEntry_def Let_def completenessRules_def
       intro!: extends_addEntry extends_fold extends_refl)

lemma vendorChecks_collect:
  "(case vendorChecks e table v of
      Inl err \<Rightarrow> vendorCollectLoop table ([], False) = Inl err
    | Inr v' \<Rightarrow>
        (\<exists>v1 index cu. extends stepRules v v1 \<and>
           vendorCollectLoop table ([], False) = Inr (index, cu) \<and>
           v' = (if \<not> cu then fold (vendorEntry e) (forIn index) v1 else v1)))"
proof (cases "vendorLoop e table (v, [], False)")
  case (Inl err)
  with vendorLoop_collect [where e = e and table = table and v = v and st = "([], False)"]
  have "vendorCollectLoop table ([], False) = Inl err" by simp
  with Inl show ?thesis by (simp add: vendorChecks_def)
next
  case (Inr r)
  obtain v1 index cu where r: "r = (v1, index, cu)" by (cases r)
  from vendorLoop_collect [where e = e and table = table and v = v and st = "([], False)"] Inr r
  have "extends stepRules v v1" "vendorCollectLoop table ([], False) = Inr (index, cu)"
    by simp_all
  with Inr r show ?thesis by (auto simp: vendorChecks_def)
qed

lemma vendorChecks_extends:
  assumes "vendorChecks e table v = Inr v'"
  shows "extends (stepRules \<union> completenessRules) v v'"
proof -
  from vendorChecks_collect [where e = e and table = table and v = v] assms obtain v1 index cu where
    e1: "extends stepRules v v1" and
    v': "v' = (if \<not> cu then fold (vendorEntry e) (forIn index) v1 else v1)"
    by auto
  from e1 have a: "extends (stepRules \<union> completenessRules) v v1"
    by (rule extends_mono) simp
  have "extends completenessRules v1 (fold (vendorEntry e) (forIn index) v1)"
    by (rule extends_fold) (rule extends_refl, rule extends_vendorEntry)
  then have "extends (stepRules \<union> completenessRules) v1 (fold (vendorEntry e) (forIn index) v1)"
    by (rule extends_mono) simp
  with a have "extends (stepRules \<union> completenessRules) v
      (fold (vendorEntry e) (forIn index) v1)"
    by (rule extends_trans)
  with a show ?thesis by (simp add: v')
qed

lemma visitRuleSet_parts:
  assumes "nclass rs = RuleSetC selectors (Some declarations)"
  shows "\<exists>v5. extends preRules v v5 \<and>
     visitRuleSet e rs v =
       (if \<not> matches selectors '':export''
        then (case vendorChecks e (propertyTableFrom e (children declarations) [])
                     (duplicateChecks e (propertyTableFrom e (children declarations) []) v5) of
                Inl err \<Rightarrow> Inl err
              | Inr v7 \<Rightarrow> Inr (True, v7))
        else Inr (True, duplicateChecks e (propertyTableFrom e (children declarations) []) v5))"
proof -
  let ?T = "propertyTableFrom e (children declarations) []"
  let ?bm = "calculateBoxModel e ?T"
  let ?v1 = "if \<not> hasChildren declarations then addEntry e selectors EmptyRuleSet None v else v"
  let ?v2 = "boxModelCheck e (bm_width ?bm) (bm_right ?bm) (bm_left ?bm) ?v1"
  let ?v3 = "boxModelCheck e (bm_height ?bm) (bm_top ?bm) (bm_bottom ?bm) ?v2"
  let ?v4 = "displayChecks e ?T ?v3"
  let ?v5 = "floatChecks e ?T ?v4"
  have "extends preRules v ?v1"
    by (auto simp: preRules_def intro!: extends_addEntry extends_refl)
  then have "extends preRules v ?v2" by (rule extends_trans) (rule extends_boxModelCheck)
  then have "extends preRules v ?v3" by (rule extends_trans) (rule extends_boxModelCheck)
  then have "extends preRules v ?v4" by (rule extends_trans) (rule extends_displayChecks)
  then have "extends preRules v ?v5" by (rule extends_trans) (rule extends_floatChecks)
  moreover have "visitRuleSet e rs v =
       (if \<not> matches selectors '':export''
        then (case vendorChecks e ?T (duplicateChecks e ?T ?v5) of
                Inl err \<Rightarrow> Inl err
              | Inr v7 \<Rightarrow> Inr (True, v7))
        else Inr (True, duplicateChecks e ?T ?v5))"
    using assms by (simp add: visitRuleSet_def Let_def)
  ultimately show ?thesis by blast
qed

text \<open>
  When the visit of a rule set returns, the duplicate markers it has pushed are those
  of the duplicate check.
\<close>

lemma visitRuleSet_duplicates:
  assumes rs: "nclass rs = RuleSetC selectors (Some declarations)"
    and P: "\<And>m. P m \<Longrightarrow> mrule m = DuplicateDeclarations"
    and ret: "visitRuleSet e rs v = Inr (b, v')"
  shows "filter P (warnings v') =
     filter P (warnings v) @
     filter P (concat (map (duplicateMarkersFor e (documentText v) (validProperty v)
        (propertyTableFrom e (children declarations) []))
        (propertyTableFrom e (children declarations) [])))"
proof -
  let ?T = "propertyTableFrom e (children declarations) []"
  from visitRuleSet_parts [OF rs, of v e] obtain v5 where
    pre: "extends preRules v v5" and
    res: "visitRuleSet e rs v =
       (if \<not> matches selectors '':export''
        then (case vendorChecks e ?T (duplicateChecks e ?T v5) of
                Inl err \<Rightarrow> Inl err
              | Inr v7 \<Rightarrow> Inr (True, v7))
        else Inr (True, duplicateChecks e ?T v5))"
    by blast
  let ?v6 = "duplicateChecks e ?T v5"
  have f5: "filter P (warnings v5) = filter P (warnings v)"
    using pre by (rule extends_filter) (auto simp: preRules_def dest: P)
  have f6: "filter P (warnings ?v6) =
      filter P (warnings v) @
      filter P (concat (map (duplicateMarkersFor e (documentText v) (validProperty v) ?T) ?T))"
    by (simp add: duplicateChecks_emit f5 extends_fields [OF pre])
  show ?thesis
  proof (cases "matches selectors '':export''")
    case True
    with res ret have "v' = ?v6" by simp
    with f6 show ?thesis by simp
  next
    case False
    with res ret have "vendorChecks e ?T ?v6 = Inr v'"
      by (simp split: sum.splits)
    then have "extends (stepRules \<union> completenessRules) ?v6 v'"
      by (rule vendorChecks_extends)
    then have "filter P (warnings v') = filter P (warnings ?v6)"
      by (rule extends_filter) (auto simp: stepRules_def completenessRules_def dest: P)
    with f6 show ?thesis by simp
  qed
qed

text \<open>The visit of a rule set returns when the index of its properties can be built.\<close>

lemma visitRuleSet_returns:
  assumes rs: "nclass rs = RuleSetC selectors (Some declarations)"
    and collect: "vendorCollectLoop (propertyTableFrom e (children declarations) [])
        ([], False) = Inr st"
  shows "\<exists>v'. visitRuleSet e rs v = Inr (True, v')"
proof -
  let ?T = "propertyTableFrom e (children declarations) []"
  from visitRuleSet_parts [OF rs, of v e] obtain v5 where
    res: "visitRuleSet e rs v =
       (if \<not> matches selectors '':export''
        then (case vendorChecks e ?T (duplicateChecks e ?T v5) of
                Inl err \<Rightarrow> Inl err
              | Inr v7 \<Rightarrow> Inr (True, v7))
        else Inr (True, duplicateChecks e ?T v5))"
    by blast
  show ?thesis
  proof (cases "vendorChecks e ?T (duplicateChecks e ?T v5)")
    case (Inl err)
    with vendorChecks_collect [where e = e and table = "?T" and v = "duplicateChecks e ?T v5"] collect show ?thesis
      by simp
  next
    case (Inr v7)
    with res show ?thesis by simp
  qed
qed

text \<open>
  \<^verbatim>\<open>add\<close> returns for a root that is not a member of \<^verbatim>\<open>Object.prototype\<close>, and so does
  the index of a table of such names without a prefix or a hack.
\<close>

lemma add_returns:
  "root \<notin> set ObjectPrototype_members \<Longrightarrow> \<exists>data. add m root name nd = Inr data"
proof (induction m)
  case Nil
  then show ?case by simp
next
  case (Cons kv m)
  then obtain data where "add m root name nd = Inr data" by blast
  then show ?case by (cases kv) simp
qed

lemma vendorCollect_returns:
  assumes "charAt (fullPropertyName el) 0 \<notin> {''-'', ''*'', ''_''}"
    and "fullPropertyName el \<notin> set ObjectPrototype_members"
  shows "\<exists>st'. vendorCollect el st = Inr st'"
proof (cases st)
  case (Pair m cu)
  from add_returns [OF assms(2)] obtain data
    where "add m (fullPropertyName el) (fullPropertyName el) None = Inr data"
    by blast
  with assms(1) Pair show ?thesis by (auto simp: vendorCollect_def Let_def)
qed

lemma vendorCollectLoop_returns:
  assumes "\<forall>el\<in>set table. charAt (fullPropertyName el) 0 \<notin> {''-'', ''*'', ''_''} \<and>
      fullPropertyName el \<notin> set ObjectPrototype_members"
  shows "\<exists>st'. vendorCollectLoop table st = Inr st'"
  using assms
proof (induction table arbitrary: st)
  case Nil
  show ?case by simp
next
  case (Cons el table)
  from Cons.prems vendorCollect_returns [of el st] obtain st1
    where "vendorCollect el st = Inr st1" by auto
  moreover from Cons.IH [of st1] Cons.prems obtain st2
    where "vendorCollectLoop table st1 = Inr st2" by auto
  ultimately show ?case by simp
qed

lemma forIn_single:
  "arrayIndex k = None \<Longrightarrow> forIn [(k, entry)] = [(k, entry)]"
  by (simp add: forIn_def)

lemma arrayIndex_names:
  "arrayIndex ''color'' = None" "arrayIndex ''foo'' = None"
  by (simp_all add: arrayIndex_def isDigit_def Let_def)

lemma not_prototype_members:
  "''color'' \<notin> set ObjectPrototype_members" "''foo'' \<notin> set ObjectPrototype_members"
  "''width'' \<notin> set ObjectPrototype_members"
  by (simp_all add: ObjectPrototype_members_def)

lemma exVisitor_fields:
  "warnings (exVisitor t) = []" "documentText (exVisitor t) = t"
  "validProperties (exVisitor t) = []"
  by (simp_all add: exVisitor_def new_LintVisitor_def exEnv_def)

lemma exEnv_levels: "getRule exEnv r = 2"
  by (simp add: exEnv_def)

subsection \<open>Duplicate declarations\<close>

text \<open>
  Claim C4: in a block with exactly the two declarations \<^verbatim>\<open>color: red; color: blue;\<close>
  (the name is not \<^verbatim>\<open>background\<close>, it is not user-declared valid, no value starts with
  \<^verbatim>\<open>-\<close>) the visit returns and each of the two declaration nodes gets a
  \<open>DuplicateDeclarations\<close> marker; when the second value starts with \<^verbatim>\<open>-\<close>, as in
  \<^verbatim>\<open>color: red; color: -blue;\<close>, the visit returns and adds no \<open>DuplicateDeclarations\<close>
  marker at all; and an element is never compared with itself: for a block \<open>rs'\<close> with one
  child the duplicate check leaves the visitor as it is, and the visit of \<open>rs'\<close>, when it
  returns, has added no such marker.
\<close>

theorem duplicate_color_declarations:
  assumes rs: "nclass rs = RuleSetC selectors (Some declarations)"
    and ds: "children declarations = [d1, d2]"
      "isDeclarationInstance d1" "isDeclarationInstance d2"
    and names: "elementName e d1 = ''color''" "elementName e d2 = ''color''"
      "\<not> validProperty v ''color''"
    and vals: "getValue d1 = Some val1" "getValue d2 = Some val2"
      "charAt (documentText v) (offset val1) \<noteq> ''-''"
    and rs': "nclass rs' = RuleSetC selectors' (Some declarations')"
      "children declarations' = [d]"
  shows "(charAt (documentText v) (offset val2) \<noteq> ''-'' \<longrightarrow>
           (\<exists>v'. visitRuleSet e rs v = Inr (True, v') \<and>
              filter (\<lambda>m. mrule m = DuplicateDeclarations) (warnings v') =
                filter (\<lambda>m. mrule m = DuplicateDeclarations) (warnings v) @
                [\<lparr>mnode = d1, mrule = DuplicateDeclarations,
                  mlevel = getRule e DuplicateDeclarations, mdetails = None\<rparr>,
                 \<lparr>mnode = d2, mrule = DuplicateDeclarations,
                  mlevel = getRule e DuplicateDeclarations, mdetails = None\<rparr>])) \<and>
         (charAt (documentText v) (offset val2) = ''-'' \<longrightarrow>
           (\<exists>v'. visitRuleSet e rs v = Inr (True, v') \<and>
              filter (\<lambda>m. mrule m = DuplicateDeclarations) (warnings v') =
                filter (\<lambda>m. mrule m = DuplicateDeclarations) (warnings v))) \<and>
         duplicateChecks e (propertyTableFrom e (children declarations') []) v = v \<and>
         (visitRuleSet e rs' v = Inr (b, w) \<longrightarrow>
            filter (\<lambda>m. mrule m = DuplicateDeclarations) (warnings w) =
              filter (\<lambda>m. mrule m = DuplicateDeclarations) (warnings v))"
proof -
  let ?P = "\<lambda>m. mrule m = DuplicateDeclarations"
  let ?T = "propertyTableFrom e (children declarations) []"
  let ?T' = "propertyTableFrom e (children declarations') []"
  have T: "?T = [new_Element e 0 d1, new_Element e 1 d2]"
    using ds by simp
  have single: "concat (map (duplicateMarkersFor e (documentText u) valid ?T') ?T') = []"
    for u valid
    using rs'(2) by (cases "isDeclarationInstance d") (simp_all add: duplicateMarkersFor_def)
  have "\<exists>st. vendorCollectLoop ?T ([], False) = Inr st"
    by (rule vendorCollectLoop_returns)
       (simp add: T new_Element_def names charAt_def not_prototype_members)
  then obtain st where "vendorCollectLoop ?T ([], False) = Inr st" ..
  with rs have "\<exists>v'. visitRuleSet e rs v = Inr (True, v')"
    by (rule visitRuleSet_returns)
  then obtain v' where ret: "visitRuleSet e rs v = Inr (True, v')" ..
  have dup: "filter ?P (warnings v') =
      filter ?P (warnings v) @
      filter ?P (concat (map (duplicateMarkersFor e (documentText v) (validProperty v) ?T) ?T))"
    using rs _ ret by (rule visitRuleSet_duplicates) simp
  have both: "filter ?P (warnings v') =
      filter ?P (warnings v) @
      [\<lparr>mnode = d1, mrule = DuplicateDeclarations,
        mlevel = getRule e DuplicateDeclarations, mdetails = None\<rparr>,
       \<lparr>mnode = d2, mrule = DuplicateDeclarations,
        mlevel = getRule e DuplicateDeclarations, mdetails = None\<rparr>]"
    if "charAt (documentText v) (offset val2) \<noteq> ''-''"
    using that names vals
    by (simp add: dup T duplicateMarkersFor_def new_Element_def qualifies_def
        valueNotDashed_def duplicateMarker_def)
  have none: "filter ?P (warnings v') = filter ?P (warnings v)"
    if "charAt (documentText v) (offset val2) = ''-''"
    using that names vals
    by (simp add: dup T duplicateMarkersFor_def new_Element_def qualifies_def
        valueNotDashed_def duplicateMarker_def)
  have self: "duplicateChecks e ?T' v = v"
    by (simp add: duplicateChecks_emit single)
  have alone: "filter ?P (warnings w) = filter ?P (warnings v)"
    if "visitRuleSet e rs' v = Inr (b, w)"
    using visitRuleSet_duplicates [OF rs'(1) _ that, of ?P] by (simp add: single)
  from ret both none self alone show ?thesis by blast
qed

text \<open>
  Claim C4 at \<^verbatim>\<open>.a { color: red; color: blue; }\<close>, where both declarations are
  flagged, at \<^verbatim>\<open>.a { color: red; color: -blue; }\<close> and at \<^verbatim>\<open>.a { color: red; }\<close>, where
  none is.
\<close>

theorem duplicate_color_declarations_witness:
  "map_sum id (\<lambda>r. filter (\<lambda>m. mrule m = DuplicateDeclarations) (warnings (snd r)))
     (visitRuleSet exEnv exRedBlue (exVisitor exRedBlueText)) =
     Inr [\<lparr>mnode = exColor 5 ''red'', mrule = DuplicateDeclarations, mlevel = 2,
            mdetails = None\<rparr>,
          \<lparr>mnode = exColor 17 ''blue'', mrule = DuplicateDeclarations, mlevel = 2,
            mdetails = None\<rparr>] \<and>
   map_sum id (\<lambda>r. filter (\<lambda>m. mrule m = DuplicateDeclarations) (warnings (snd r)))
     (visitRuleSet exEnv exRedDashBlue (exVisitor exRedDashBlueText)) = Inr [] \<and>
   duplicateChecks exEnv [new_Element exEnv 0 (exColor 5 ''red'')] (exVisitor exRedText) =
     exVisitor exRedText \<and>
   map_sum id (\<lambda>r. filter (\<lambda>m. mrule m = DuplicateDeclarations) (warnings (snd r)))
     (visitRuleSet exEnv exRed (exVisitor exRedText)) = Inr []"
proof -
  have rs1: "nclass exRedBlue = RuleSetC exSelectors
      (Some (exDeclarations exRedBlueText [exColor 5 ''red'', exColor 17 ''blue'']))"
    and rs2: "nclass exRedDashBlue = RuleSetC exSelectors
      (Some (exDeclarations exRedDashBlueText [exColor 5 ''red'', exColor 17 ''-blue'']))"
    and rs3: "nclass exRed = RuleSetC exSelectors
      (Some (exDeclarations exRedText [exColor 5 ''red'']))"
    by (simp_all add: exRedBlue_def exRedDashBlue_def exRed_def exRuleSet_def)
  have ch: "children (exDeclarations t ds) = ds" for t ds
    by (simp add: exDeclarations_def)
  have inst: "isDeclarationInstance (exColor off val)" for off val
    by (simp add: exColor_def exDeclaration_def isDeclarationInstance_def)
  have name: "elementName exEnv (exColor off val) = ''color''" for off val
    by (simp add: exEnv_def exColor_def exDeclaration_def getFullPropertyName_def
        toLowerCase_def lowerChar_def)
  have valid: "\<not> validProperty (exVisitor t) ''color''" for t
    by (simp add: validProperty_def exVisitor_fields not_prototype_members)
  have val: "getValue (exColor off val) = Some (exExpression (exIdentifier (off + 7) val))"
    for off val
    by (simp add: exColor_def exDeclaration_def getValue_def)
  have off: "offset (exExpression (exIdentifier k val)) = k" for k val
    by (simp add: exExpression_def wrapNode_def exIdentifier_def)
  have c1: "charAt exRedBlueText 12 \<noteq> ''-''" "charAt exRedBlueText 24 \<noteq> ''-''"
    and c2: "charAt exRedDashBlueText 12 \<noteq> ''-''" "charAt exRedDashBlueText 24 = ''-''"
    and c3: "charAt exRedText 12 \<noteq> ''-''"
    by (simp_all add: charAt_def exRedBlueText_def exRedDashBlueText_def exRedText_def)
  have red: "visitRuleSet exEnv exRed (exVisitor exRedText) = Inr (True, exVisitor exRedText)"
    by code_simp
  note t1 = duplicate_color_declarations
      [OF rs1 ch inst inst name name valid [of exRedBlueText] val val _ rs3 ch]
  note t2 = duplicate_color_declarations
      [OF rs2 ch inst inst name name valid [of exRedDashBlueText] val val _ rs3 ch]
  note t3 = duplicate_color_declarations
      [OF rs1 ch inst inst name name valid [of exRedText] val val _ rs3 ch,
       where b = True and w = "exVisitor exRedText"]
  from t1 c1 obtain v1 where
    "visitRuleSet exEnv exRedBlue (exVisitor exRedBlueText) = Inr (True, v1)"
    "filter (\<lambda>m. mrule m = DuplicateDeclarations) (warnings v1) =
       [\<lparr>mnode = exColor 5 ''red'', mrule = DuplicateDeclarations, mlevel = 2,
          mdetails = None\<rparr>,
        \<lparr>mnode = exColor 17 ''blue'', mrule = DuplicateDeclarations, mlevel = 2,
          mdetails = None\<rparr>]"
    by (auto simp: exVisitor_fields exEnv_levels off)
  moreover from t2 c2 obtain v2 where
    "visitRuleSet exEnv exRedDashBlue (exVisitor exRedDashBlueText) = Inr (True, v2)"
    "filter (\<lambda>m. mrule m = DuplicateDeclarations) (warnings v2) = []"
    by (auto simp: exVisitor_fields exEnv_levels off)
  moreover from t3 c3 red have
    "duplicateChecks exEnv [new_Element exEnv 0 (exColor 5 ''red'')] (exVisitor exRedText) =
       exVisitor exRedText"
    "filter (\<lambda>m. mrule m = DuplicateDeclarations) (warnings (exVisitor exRedText)) = []"
    by (simp_all add: exVisitor_fields off ch inst)
  ultimately show ?thesis by (simp add: red)
qed

subsection \<open>The number of duplicate markers\<close>

lemma propertyTable_nodes:
  "map node (propertyTableFrom e cs acc) = map node acc @ filter isDeclarationInstance cs"
  by (induction cs arbitrary: acc) (simp_all add: new_Element_def)

lemma propertyTable_names:
  "\<forall>el\<in>set acc. fullPropertyName el = elementName e (node el) \<Longrightarrow>
   \<forall>el\<in>set (propertyTableFrom e cs acc). fullPropertyName el = elementName e (node el)"
proof (induction cs arbitrary: acc)
  case Nil
  then show ?case by simp
next
  case (Cons c cs)
  show ?case
  proof (cases "isDeclarationInstance c")
    case True
    from Cons.prems
    have "\<forall>el\<in>set (acc @ [new_Element e (length acc) c]).
        fullPropertyName el = elementName e (node el)"
      by (simp add: new_Element_def)
    then have "\<forall>el\<in>set (propertyTableFrom e cs (acc @ [new_Element e (length acc) c])).
        fullPropertyName el = elementName e (node el)"
      by (rule Cons.IH)
    with True show ?thesis by simp
  next
    case False
    with Cons.IH [OF Cons.prems] show ?thesis by simp
  qed
qed

lemma length_filter_concat:
  "length (filter P (concat xss)) = sum_list (map (\<lambda>xs. length (filter P xs)) xss)"
  by (induction xss) simp_all

lemma sum_list_single:
  "distinct (map f xs) \<Longrightarrow> d \<in> set (map f xs) \<Longrightarrow>
   sum_list (map (\<lambda>x. if f x = d then c else 0) xs) = (c::nat)"
proof (induction xs)
  case Nil
  then show ?case by simp
next
  case (Cons x xs)
  show ?case
  proof (cases "f x = d")
    case True
    from Cons.prems True have "d \<notin> f ` set xs" by simp
    then have "\<forall>y\<in>set xs. f y \<noteq> d" by blast
    then have "sum_list (map (\<lambda>x. if f x = d then c else 0) xs) = 0"
      by (simp add: sum_list_eq_0_iff)
    with True show ?thesis by simp
  next
    case False
    with Cons show ?thesis by simp
  qed
qed

lemma length_filter_others:
  "distinct xs \<Longrightarrow> x \<in> set xs \<Longrightarrow> length (filter (\<lambda>y. y \<noteq> x) xs) = length xs - 1"
proof (induction xs)
  case Nil
  then show ?case by simp
next
  case (Cons a xs)
  show ?case
  proof (cases "a = x")
    case True
    with Cons.prems have "filter (\<lambda>y. y \<noteq> x) xs = xs" by (auto simp: filter_id_conv)
    with True show ?thesis by simp
  next
    case False
    with Cons.prems have "x \<in> set xs" "distinct xs" by auto
    with Cons.IH have "length (filter (\<lambda>y. y \<noteq> x) xs) = length xs - 1" by simp
    moreover from \<open>x \<in> set xs\<close> have "0 < length xs" by (cases xs) auto
    ultimately show ?thesis using False by simp
  qed
qed

text \<open>
  In a block whose declarations are different nodes (as they are in a tree, where they
  differ in their offsets), let \<open>n \<ge> 2\<close> of them have the element name \<open>s\<close>, which is not
  \<^verbatim>\<open>background\<close> and is not found in the table of the valid properties (it is no name of
  the settings and no member of \<^verbatim>\<open>Object.prototype\<close>), and let each of the \<open>n\<close> have a
  value that does not start with \<^verbatim>\<open>-\<close>. Then the visit of the rule set, when it returns,
  has added exactly \<open>n - 1\<close> \<open>DuplicateDeclarations\<close> markers on each of the \<open>n\<close>
  declaration nodes.
\<close>

lemma duplicateMarkers_on_each_node:
  assumes rs: "nclass rs = RuleSetC selectors (Some declarations)"
    and dist: "distinct (blockDeclarations declarations)"
    and n: "length (declarationsNamed e s declarations) = n" "2 \<le> n"
    and s: "s \<noteq> ''background''" "\<not> validProperty v s"
    and vals: "\<forall>d \<in> set (declarationsNamed e s declarations). valueNotDashed (documentText v) d"
    and d: "d \<in> set (declarationsNamed e s declarations)"
    and ret: "visitRuleSet e rs v = Inr (b, v')"
  shows "duplicateMarkersOn d (warnings v') = duplicateMarkersOn d (warnings v) + (n - 1)"
proof -
  let ?T = "propertyTableFrom e (children declarations) []"
  let ?P = "\<lambda>m. mrule m = DuplicateDeclarations \<and> mnode m = d"
  let ?F = "duplicateMarkersFor e (documentText v) (validProperty v) ?T"
  let ?G = "filter (\<lambda>other. fullPropertyName other = s) ?T"
  have nodes: "map node ?T = blockDeclarations declarations"
    by (simp add: propertyTable_nodes blockDeclarations_def)
  have names: "\<forall>el\<in>set ?T. fullPropertyName el = elementName e (node el)"
    by (rule propertyTable_names) simp
  from dist nodes have distT: "distinct (map node ?T)" by simp
  then have distinctT: "distinct ?T" by (simp add: distinct_map)
  from names have G: "?G = filter (\<lambda>el. elementName e (node el) = s) ?T"
    by (intro filter_cong) auto
  have nodesG: "map node ?G = declarationsNamed e s declarations"
    by (simp add: G declarationsNamed_def nodes [symmetric] filter_map comp_def)
  then have lenG: "length ?G = n" using n(1) by (metis length_map)
  have qualG: "\<forall>el\<in>set ?G. qualifies (documentText v) el"
  proof
    fix el assume "el \<in> set ?G"
    then have "node el \<in> set (map node ?G)" by (simp only: set_map) (rule imageI)
    with nodesG vals show "qualifies (documentText v) el" by (simp add: qualifies_def)
  qed
  have per: "length (filter ?P (?F el)) = (if node el = d then n - 1 else 0)"
    if el: "el \<in> set ?T" for el
  proof (cases "node el = d")
    case False
    have "filter ?P (?F el) = []"
      using False by (auto simp: filter_empty_conv dest: duplicateMarkersFor_nodes)
    with False show ?thesis by simp
  next
    case True
    from d True have nm: "elementName e (node el) = s"
      by (simp add: declarationsNamed_def)
    with names el have name: "fullPropertyName el = s" by simp
    with el have elG: "el \<in> set ?G" by simp
    with qualG have q: "qualifies (documentText v) el" by blast
    have same: "filter (\<lambda>other. qualifies (documentText v) other \<and> other \<noteq> el) ?G =
        filter (\<lambda>other. other \<noteq> el) ?G"
      using qualG by (intro filter_cong) auto
    from distinctT have "distinct ?G" by simp
    with elG have "length (filter (\<lambda>other. other \<noteq> el) ?G) = length ?G - 1"
      by (rule length_filter_others [rotated])
    with lenG have cnt: "length (filter (\<lambda>other. other \<noteq> el) ?G) = n - 1" by simp
    from n(2) lenG have big: "1 < length ?G" by simp
    have "?F el = map (\<lambda>other. duplicateMarker e el)
        (filter (\<lambda>other. qualifies (documentText v) other \<and> other \<noteq> el) ?G)"
      using s q big by (simp add: duplicateMarkersFor_def name)
    then have F: "?F el =
        map (\<lambda>other. duplicateMarker e el) (filter (\<lambda>other. other \<noteq> el) ?G)"
      by (simp only: same)
    have "filter ?P (?F el) = ?F el"
      using True by (auto simp: filter_id_conv dest: duplicateMarkersFor_nodes)
    with F cnt True show ?thesis by simp
  qed
  have "length (filter ?P (concat (map ?F ?T))) =
      sum_list (map (\<lambda>el. length (filter ?P (?F el))) ?T)"
    by (simp add: length_filter_concat comp_def)
  also have "\<dots> = sum_list (map (\<lambda>el. if node el = d then n - 1 else 0) ?T)"
    using per by (intro arg_cong [where f = sum_list] map_cong) auto
  also have "\<dots> = n - 1"
  proof (rule sum_list_single [OF distT])
    from d have "d \<in> set (blockDeclarations declarations)" by (simp add: declarationsNamed_def)
    with nodes show "d \<in> set (map node ?T)" by simp
  qed
  finally have new: "length (filter ?P (concat (map ?F ?T))) = n - 1" .
  have "filter ?P (warnings v') =
      filter ?P (warnings v) @ filter ?P (concat (map ?F ?T))"
    using rs _ ret by (rule visitRuleSet_duplicates) simp
  with new show ?thesis by (simp add: duplicateMarkersOn_def)
qed

text \<open>
  At \<^verbatim>\<open>.a { color: red; color: blue; color: green; }\<close> the visit returns and each of
  the three declarations gets two markers.
\<close>

lemma duplicateMarkers_three_colors:
  "\<exists>v'. visitRuleSet exEnv exThreeColors (exVisitor exThreeColorsText) = Inr (True, v') \<and>
     duplicateMarkersOn (exColor 5 ''red'') (warnings v') = 2 \<and>
     duplicateMarkersOn (exColor 17 ''blue'') (warnings v') = 2 \<and>
     duplicateMarkersOn (exColor 30 ''green'') (warnings v') = 2"
proof -
  let ?decls = "exDeclarations exThreeColorsText
      [exColor 5 ''red'', exColor 17 ''blue'', exColor 30 ''green'']"
  have rs: "nclass exThreeColors = RuleSetC exSelectors (Some ?decls)"
    by (simp add: exThreeColors_def exRuleSet_def)
  have dist: "distinct (blockDeclarations ?decls)"
    by code_simp
  have n: "length (declarationsNamed exEnv ''color'' ?decls) = 3" "2 \<le> (3::nat)"
    by code_simp+
  have s: "''color'' \<noteq> ''background''"
    "\<not> validProperty (exVisitor exThreeColorsText) ''color''"
    by (simp_all add: validProperty_def exVisitor_fields not_prototype_members)
  have vals: "\<forall>d \<in> set (declarationsNamed exEnv ''color'' ?decls).
      valueNotDashed (documentText (exVisitor exThreeColorsText)) d"
    unfolding exVisitor_fields by code_simp
  have d: "exColor 5 ''red'' \<in> set (declarationsNamed exEnv ''color'' ?decls)"
    "exColor 17 ''blue'' \<in> set (declarationsNamed exEnv ''color'' ?decls)"
    "exColor 30 ''green'' \<in> set (declarationsNamed exEnv ''color'' ?decls)"
    by code_simp+
  have "\<exists>st. vendorCollectLoop (propertyTableFrom exEnv (children ?decls) []) ([], False) =
      Inr st"
    by (rule vendorCollectLoop_returns) code_simp
  then obtain st where
    "vendorCollectLoop (propertyTableFrom exEnv (children ?decls) []) ([], False) = Inr st" ..
  with rs have "\<exists>v'. visitRuleSet exEnv exThreeColors (exVisitor exThreeColorsText) =
      Inr (True, v')"
    by (rule visitRuleSet_returns)
  then obtain v' where
    ret: "visitRuleSet exEnv exThreeColors (exVisitor exThreeColorsText) = Inr (True, v')" ..
  note t = duplicateMarkers_on_each_node [OF rs dist n s vals _ ret]
  from t [OF d(1)] t [OF d(2)] t [OF d(3)] ret show ?thesis
    by (simp add: exVisitor_fields duplicateMarkersOn_def)
qed

text \<open>
  Claim C10, at \<^verbatim>\<open>.a { constructor: red; constructor: blue; }\<close> with no valid property
  in the settings: two declarations share the name \<^verbatim>\<open>constructor\<close>, which is not
  \<^verbatim>\<open>background\<close> and not user-declared valid, and no value starts with \<^verbatim>\<open>-\<close>, so the
  claim expects one \<open>DuplicateDeclarations\<close> marker on each. The table of the valid
  properties is a plain object, in which \<^verbatim>\<open>constructor\<close> is found: the duplicate check
  pushes no marker. The index of the properties is a plain object too: \<^verbatim>\<open>add\<close> finds
  \<^verbatim>\<open>constructor\<close> in it and raises a \<^verbatim>\<open>TypeError\<close>, which ends the visit of the rule
  set, the traversal and the call of \<^verbatim>\<open>entries\<close>.
\<close>

theorem visitRuleSet_constructor_declarations:
  "declarationsNamed exEnv ''constructor'' exTwoConstructorsDeclarations =
     [exConstructor 5 ''red'', exConstructor 23 ''blue''] \<and>
   map (valueNotDashed exTwoConstructorsText)
     [exConstructor 5 ''red'', exConstructor 23 ''blue''] = [True, True] \<and>
   validProperties (exVisitor exTwoConstructorsText) = [] \<and>
   validProperty (exVisitor exTwoConstructorsText) ''constructor'' \<and>
   duplicateChecks exEnv
     (propertyTableFrom exEnv (children exTwoConstructorsDeclarations) [])
     (exVisitor exTwoConstructorsText) = exVisitor exTwoConstructorsText \<and>
   add [] ''constructor'' ''constructor'' None = Inl TypeError \<and>
   visitRuleSet exEnv exTwoConstructors (exVisitor exTwoConstructorsText) = Inl TypeError \<and>
   acceptVisitor exEnv [] exTwoConstructors (exVisitor exTwoConstructorsText) =
     Inl TypeError \<and>
   entries exEnv [] exTwoConstructors exTwoConstructorsText None = Inl TypeError"
  by code_simp

subsection \<open>Vendor prefixes and the standard property\<close>

lemma isCSSDeclaration_parts:
  "isCSSDeclaration d \<Longrightarrow> isDeclarationInstance d \<and> getProperty d \<noteq> None"
  by (auto simp: isCSSDeclaration_def split: if_splits option.splits)

lemma visitRuleSet_completeness:
  assumes rs: "nclass rs = RuleSetC selectors (Some declarations)"
    and noexport: "\<not> matches selectors '':export''"
    and P: "\<And>m. P m \<Longrightarrow> mrule m \<in> completenessRules"
    and collect: "vendorCollectLoop (propertyTableFrom e (children declarations) [])
        ([], False) = Inr (index, False)"
    and entry: "\<And>w. fold (vendorEntry e) (forIn index) w = emit ms w"
  shows "\<exists>v'. visitRuleSet e rs v = Inr (True, v') \<and>
     filter P (warnings v') = filter P (warnings v) @ filter P ms"
proof -
  let ?T = "propertyTableFrom e (children declarations) []"
  from visitRuleSet_parts [OF rs, of v e] noexport obtain v5 where
    pre: "extends preRules v v5" and
    res: "visitRuleSet e rs v =
       (case vendorChecks e ?T (duplicateChecks e ?T v5) of
          Inl err \<Rightarrow> Inl err
        | Inr v7 \<Rightarrow> Inr (True, v7))"
    by auto
  let ?v6 = "duplicateChecks e ?T v5"
  have f5: "filter P (warnings v5) = filter P (warnings v)"
    using pre by (rule extends_filter) (auto simp: preRules_def completenessRules_def dest: P)
  have "filter P (concat (map (duplicateMarkersFor e (documentText v5) (validProperty v5) ?T)
      ?T)) = []"
    by (auto simp: filter_empty_conv completenessRules_def
        dest!: duplicateMarkersFor_nodes P)
  then have f6: "filter P (warnings ?v6) = filter P (warnings v)"
    by (simp add: duplicateChecks_emit f5)
  show ?thesis
  proof (cases "vendorChecks e ?T ?v6")
    case (Inl err)
    with vendorChecks_collect [where e = e and table = "?T" and v = "?v6"] collect
    show ?thesis by simp
  next
    case (Inr v')
    with vendorChecks_collect [where e = e and table = "?T" and v = "?v6"] collect
    obtain v7 where step: "extends stepRules ?v6 v7"
      and v': "v' = fold (vendorEntry e) (forIn index) v7"
      by auto
    have f7: "filter P (warnings v7) = filter P (warnings ?v6)"
      using step
      by (rule extends_filter) (auto simp: stepRules_def completenessRules_def dest: P)
    from res Inr have "visitRuleSet e rs v = Inr (True, v')" by simp
    moreover have "filter P (warnings v') = filter P (warnings v) @ filter P ms"
      by (simp add: v' entry f7 f6)
    ultimately show ?thesis by blast
  qed
qed

lemma charAt_prefixed:
  "charAt ''-s2-foo'' 0 = ''-''" "charAt ''-s2-foo'' (Suc 0) = ''s''" "charAt ''foo'' 0 = ''f''"
  by (simp_all add: charAt_def)

text \<open>
  Claim C2: in a block that is not an \<^verbatim>\<open>:export\<close> block, let \<open>d1\<close> be a genuine
  declaration of \<^verbatim>\<open>-s2-foo\<close>, whose name without the prefix is \<^verbatim>\<open>foo\<close>. When the block
  is \<^verbatim>\<open>-s2-foo: 1; foo: 1;\<close>, both genuine, and \<^verbatim>\<open>-s2-foo\<close> is a standard property,
  the visit returns and adds no \<open>IncludeStandardPropertyWhenUsingVendorPrefix\<close> and no
  \<open>AllVendorPrefixes\<close> marker. When the block is \<^verbatim>\<open>-s2-foo: 1;\<close> alone and \<^verbatim>\<open>foo\<close> is a
  standard property, the visit returns and adds exactly one
  \<open>IncludeStandardPropertyWhenUsingVendorPrefix\<close> marker, on the property node of the
  declaration, and no \<open>AllVendorPrefixes\<close> marker.
\<close>

theorem vendor_prefix_completion:
  assumes rs: "nclass rs = RuleSetC selectors (Some declarations)"
    and noexport: "\<not> matches selectors '':export''"
    and d1: "isCSSDeclaration d1" "getProperty d1 = Some property1"
      "elementName e d1 = ''-s2-foo''" "getNonPrefixedPropertyName d1 = ''foo''"
  shows
    "(children declarations = [d1, d2] \<and> isCSSDeclaration d2 \<and> elementName e d2 = ''foo'' \<and>
      isStandardProperty e ''-s2-foo'' \<longrightarrow>
        (\<exists>v'. visitRuleSet e rs v = Inr (True, v') \<and>
           filter (\<lambda>m. mrule m = IncludeStandardPropertyWhenUsingVendorPrefix \<or>
                       mrule m = AllVendorPrefixes)
             (warnings v') =
           filter (\<lambda>m. mrule m = IncludeStandardPropertyWhenUsingVendorPrefix \<or>
                       mrule m = AllVendorPrefixes)
             (warnings v))) \<and>
     (children declarations = [d1] \<and> isStandardProperty e ''foo'' \<longrightarrow>
        (\<exists>v'. visitRuleSet e rs v = Inr (True, v') \<and>
           filter (\<lambda>m. mrule m = IncludeStandardPropertyWhenUsingVendorPrefix \<or>
                       mrule m = AllVendorPrefixes)
             (warnings v') =
           filter (\<lambda>m. mrule m = IncludeStandardPropertyWhenUsingVendorPrefix \<or>
                       mrule m = AllVendorPrefixes)
             (warnings v) @
           [\<lparr>mnode = property1, mrule = IncludeStandardPropertyWhenUsingVendorPrefix,
             mlevel = getRule e IncludeStandardPropertyWhenUsingVendorPrefix,
             mdetails =
               Some ''Also define the standard property 'foo' for compatibility''\<rparr>]))"
proof (intro conjI impI)
  let ?P = "\<lambda>m. mrule m = IncludeStandardPropertyWhenUsingVendorPrefix \<or>
                 mrule m = AllVendorPrefixes"
  have P: "\<And>m. ?P m \<Longrightarrow> mrule m \<in> completenessRules"
    by (auto simp: completenessRules_def)
  from d1(1) have inst1: "isDeclarationInstance d1" by (simp add: isCSSDeclaration_parts)
  {
    assume a: "children declarations = [d1, d2] \<and> isCSSDeclaration d2 \<and>
      elementName e d2 = ''foo'' \<and> isStandardProperty e ''-s2-foo''"
    then have inst2: "isDeclarationInstance d2" by (simp add: isCSSDeclaration_parts)
    let ?index = "[(''foo'', \<lparr>nodes = [property1], names = [''-s2-foo'', ''foo'']\<rparr>)]"
    have collect: "vendorCollectLoop (propertyTableFrom e (children declarations) [])
        ([], False) = Inr (?index, False)"
      using a d1 inst1 inst2
      by (simp add: vendorCollect_def new_Element_def charAt_prefixed push_entry_def Let_def
          not_prototype_members)
    have missing: "getMissingNames [''-s2-foo''] [''-s2-foo'', ''foo''] = None"
      by (simp add: getMissingNames_eq nameList_def)
    have entry: "\<And>w. fold (vendorEntry e) (forIn ?index) w = emit [] w"
      using a
      by (simp add: forIn_single arrayIndex_names vendorEntry_def expectedNames_def
          prefixes_def missing truthy_def)
    from visitRuleSet_completeness [OF rs noexport P collect entry, of "?P" v]
    show "\<exists>v'. visitRuleSet e rs v = Inr (True, v') \<and>
        filter ?P (warnings v') = filter ?P (warnings v)"
      by simp
  }
  {
    assume a: "children declarations = [d1] \<and> isStandardProperty e ''foo''"
    let ?index = "[(''foo'', \<lparr>nodes = [property1], names = [''-s2-foo'']\<rparr>)]"
    let ?m = "\<lparr>mnode = property1, mrule = IncludeStandardPropertyWhenUsingVendorPrefix,
          mlevel = getRule e IncludeStandardPropertyWhenUsingVendorPrefix,
          mdetails = Some ''Also define the standard property 'foo' for compatibility''\<rparr>"
    have collect: "vendorCollectLoop (propertyTableFrom e (children declarations) [])
        ([], False) = Inr (?index, False)"
      using a d1 inst1
      by (simp add: vendorCollect_def new_Element_def charAt_prefixed push_entry_def Let_def
          not_prototype_members)
    have missing: "getMissingNames (expectedNames e ''foo'') [''-s2-foo''] = None"
      by (simp add: getMissingNames_eq nameList_def expectedNames_def prefixes_def)
    have entry: "\<And>w. fold (vendorEntry e) (forIn ?index) w = emit [?m] w"
      using a
      by (simp add: forIn_single arrayIndex_names vendorEntry_def missing truthy_def
          addEntry_emit message_standardMissing_def)
    from visitRuleSet_completeness [OF rs noexport P collect entry, of "?P" v]
    show "\<exists>v'. visitRuleSet e rs v = Inr (True, v') \<and>
        filter ?P (warnings v') = filter ?P (warnings v) @ [?m]"
      by simp
  }
qed

text \<open>
  Claim C2 at \<^verbatim>\<open>.a { -s2-foo: 1; foo: 1; }\<close> and at \<^verbatim>\<open>.a { -s2-foo: 1; }\<close>.
\<close>

theorem vendor_prefix_completion_witness:
  "map_sum id
     (\<lambda>r. filter (\<lambda>m. mrule m = IncludeStandardPropertyWhenUsingVendorPrefix \<or>
                       mrule m = AllVendorPrefixes) (warnings (snd r)))
     (visitRuleSet exEnv exBothFoo (exVisitor exBothFooText)) = Inr [] \<and>
   map_sum id
     (\<lambda>r. filter (\<lambda>m. mrule m = IncludeStandardPropertyWhenUsingVendorPrefix \<or>
                       mrule m = AllVendorPrefixes) (warnings (snd r)))
     (visitRuleSet exEnv exOnlyPrefixedFoo (exVisitor exOnlyPrefixedFooText)) =
     Inr [\<lparr>mnode = exProperty 5 ''-s2-foo'',
            mrule = IncludeStandardPropertyWhenUsingVendorPrefix, mlevel = 2,
            mdetails = Some ''Also define the standard property 'foo' for compatibility''\<rparr>]"
proof -
  have rs1: "nclass exBothFoo = RuleSetC exSelectors
      (Some (exDeclarations exBothFooText [exPrefixedFoo, exFoo]))"
    and rs2: "nclass exOnlyPrefixedFoo = RuleSetC exSelectors
      (Some (exDeclarations exOnlyPrefixedFooText [exPrefixedFoo]))"
    by (simp_all add: exBothFoo_def exOnlyPrefixedFoo_def exRuleSet_def)
  have noexport: "\<not> matches exSelectors '':export''"
    by (simp add: matches_def exSelectors_def)
  have d1: "isCSSDeclaration exPrefixedFoo"
    "getProperty exPrefixedFoo = Some (exProperty 5 ''-s2-foo'')"
    "elementName exEnv exPrefixedFoo = ''-s2-foo''"
    "getNonPrefixedPropertyName exPrefixedFoo = ''foo''"
    by code_simp+
  have d2: "isCSSDeclaration exFoo" "elementName exEnv exFoo = ''foo''"
    by code_simp+
  have std: "isStandardProperty exEnv ''-s2-foo''" "isStandardProperty exEnv ''foo''"
    by (simp_all add: exEnv_def)
  have ch: "children (exDeclarations t ds) = ds" for t ds
    by (simp add: exDeclarations_def)
  note t1 = vendor_prefix_completion [OF rs1 noexport d1, of exFoo "exVisitor exBothFooText"]
  note t2 = vendor_prefix_completion
      [OF rs2 noexport d1, of exFoo "exVisitor exOnlyPrefixedFooText"]
  from t1 d2 std obtain v1 where
    "visitRuleSet exEnv exBothFoo (exVisitor exBothFooText) = Inr (True, v1)"
    "filter (\<lambda>m. mrule m = IncludeStandardPropertyWhenUsingVendorPrefix \<or>
                 mrule m = AllVendorPrefixes) (warnings v1) = []"
    by (auto simp: ch exVisitor_fields)
  moreover from t2 std obtain v2 where
    "visitRuleSet exEnv exOnlyPrefixedFoo (exVisitor exOnlyPrefixedFooText) = Inr (True, v2)"
    "filter (\<lambda>m. mrule m = IncludeStandardPropertyWhenUsingVendorPrefix \<or>
                 mrule m = AllVendorPrefixes) (warnings v2) =
       [\<lparr>mnode = exProperty 5 ''-s2-foo'',
          mrule = IncludeStandardPropertyWhenUsingVendorPrefix, mlevel = 2,
          mdetails = Some ''Also define the standard property 'foo' for compatibility''\<rparr>]"
    by (auto simp: ch exVisitor_fields exEnv_levels)
  ultimately show ?thesis by simp
qed

end
